theory Spec2Isabelle
  imports Complex_Main
begin

section \<open>JavaScript values, conditions and arrays\<close>

text \<open>
  The workers are dynamically typed JavaScript.  A scalar slot (an option field, a private
  field of a description, an element of a packed array) holds a \<open>jsval\<close>.  The modelled
  code never computes with numbers: it stores, copies and tests them, so a number is a
  \<open>real\<close> and the IEEE special values play no role.  A thrown exception is the \<open>Inl\<close>
  branch of a sum; \<open>DeveloperError\<close> is the condition the specification calls
  InvalidArgument, \<open>TypeError\<close> is the one the language raises itself.
\<close>

datatype jsval = Undefined | Null | Num real | Str string | Bool bool

datatype error = DeveloperError string | TypeError string

text \<open>
  Modelled from the spec: the helpers \<open>defined\<close> and \<open>defaultValue\<close> of module
  \<open>when\<close>, which is not among the sources.  A value is defined when it is neither
  undefined nor null; a default replaces a value that is not defined (4.2: applies defaults
  for optional parameters).
\<close>

definition defined :: "jsval \<Rightarrow> bool" where
  "defined v = (v \<noteq> Undefined \<and> v \<noteq> Null)"

definition defaultValue :: "jsval \<Rightarrow> jsval \<Rightarrow> jsval" where
  "defaultValue a b = (if defined a then a else b)"

text \<open>
  Modelled from the spec: the checks \<open>Check.typeOf.number\<close> and \<open>Check.typeOf.object\<close> of
  module \<open>RuntimeError\<close>, which is not among the sources.  A check fails with
  InvalidArgument when a mandatory numeric parameter is absent or non-numeric (4.2), or
  when the value to pack is absent (4.1).  The condition carries the name of the
  parameter.
\<close>

definition Check_typeOf_number :: "string \<Rightarrow> jsval \<Rightarrow> error option" where
  "Check_typeOf_number name v = (case v of Num r \<Rightarrow> None | _ \<Rightarrow> Some (DeveloperError name))"

definition Check_typeOf_object :: "string \<Rightarrow> 'a option \<Rightarrow> error option" where
  "Check_typeOf_object name v = (case v of Some obj \<Rightarrow> None | None \<Rightarrow> Some (DeveloperError name))"

text \<open>
  A packed array is a JavaScript array: reading past the end yields undefined, writing past
  the end extends the array and leaves holes that read as undefined.  The optional
  \<open>startingIndex\<close> of the packing protocol defaults to 0.
\<close>

definition array_get :: "jsval list \<Rightarrow> nat \<Rightarrow> jsval" where
  "array_get a i = (if i < length a then a ! i else Undefined)"

definition array_set :: "jsval list \<Rightarrow> nat \<Rightarrow> jsval \<Rightarrow> jsval list" where
  "array_set a i v =
     (if i < length a then a[i := v] else a @ replicate (i - length a) Undefined @ [v])"

definition startIndex :: "nat option \<Rightarrow> nat" where
  "startIndex startingIndex = (case startingIndex of None \<Rightarrow> 0 | Some i \<Rightarrow> i)"

section \<open>The object store: Cartesian3 and Ellipsoid\<close>

text \<open>
  Modelled from the spec: the value types \<open>Cartesian3\<close> and \<open>Ellipsoid\<close> of module
  \<open>Matrix2\<close>, which is not among the sources.  The specification consumes them as opaque
  value types (1); what crosses the packing boundary is their numeric value (3): the three
  components of a point, the three radii of a reference body.
\<close>

record cartesian3 =
  c3_x :: jsval
  c3_y :: jsval
  c3_z :: jsval

record ellipsoid =
  ellipsoid_radii :: cartesian3

text \<open>
  The sources clone the reference-frame objects of a description (its center, a
  \<open>Cartesian3\<close>, and its reference body, an \<open>Ellipsoid\<close>) and write into scratch instances
  of them, so these objects live in a store: a description holds their addresses, and
  \<open>fresh\<close> is the next address an allocation returns.  Description and option objects are
  passed as records and returned updated.
\<close>

type_synonym addr = nat

record store =
  cartesians :: "addr \<Rightarrow> cartesian3"
  ellipsoids :: "addr \<Rightarrow> ellipsoid"
  fresh :: addr

text \<open>
  Modelled from the spec: the constructors of \<open>Cartesian3\<close> and \<open>Ellipsoid\<close> (module
  \<open>Matrix2\<close>, not among the sources).  A new object takes the next address of the store.
\<close>

definition Cartesian3_new :: "'s store_scheme \<Rightarrow> cartesian3 \<Rightarrow> addr \<times> 's store_scheme" where
  "Cartesian3_new st v =
     (fresh st, st\<lparr>cartesians := (cartesians st)(fresh st := v), fresh := Suc (fresh st)\<rparr>)"

definition Ellipsoid_new :: "'s store_scheme \<Rightarrow> ellipsoid \<Rightarrow> addr \<times> 's store_scheme" where
  "Ellipsoid_new st v =
     (fresh st, st\<lparr>ellipsoids := (ellipsoids st)(fresh st := v), fresh := Suc (fresh st)\<rparr>)"

text \<open>
  Modelled from the spec: \<open>Cartesian3.clone\<close> and \<open>Ellipsoid.clone\<close> (module \<open>Matrix2\<close>,
  not among the sources).  Reference-frame values are passed through a clone operation
  with value semantics, not identity (4.1): a clone without a result object is a new object
  with the same components; a clone into a result object overwrites that object and
  returns it.
\<close>

definition Cartesian3_clone ::
  "'s store_scheme \<Rightarrow> addr \<Rightarrow> addr option \<Rightarrow> addr \<times> 's store_scheme" where
  "Cartesian3_clone st cartesian result =
     (case result of
        None \<Rightarrow> Cartesian3_new st (cartesians st cartesian)
      | Some r \<Rightarrow> (r, st\<lparr>cartesians := (cartesians st)(r := cartesians st cartesian)\<rparr>))"

definition Ellipsoid_clone ::
  "'s store_scheme \<Rightarrow> addr \<Rightarrow> addr option \<Rightarrow> addr \<times> 's store_scheme" where
  "Ellipsoid_clone st ellipsoid result =
     (case result of
        None \<Rightarrow> Ellipsoid_new st (ellipsoids st ellipsoid)
      | Some r \<Rightarrow> (r, st\<lparr>ellipsoids := (ellipsoids st)(r := ellipsoids st ellipsoid)\<rparr>))"

text \<open>
  Modelled from the spec: the packing of \<open>Cartesian3\<close> and \<open>Ellipsoid\<close> (module
  \<open>Matrix2\<close>, not among the sources), three numbers each, written from an index on and
  read back from it, by the protocol of 4.1.
\<close>

definition Cartesian3_packedLength :: nat where
  "Cartesian3_packedLength = 3"

definition Cartesian3_pack :: "cartesian3 \<Rightarrow> jsval list \<Rightarrow> nat \<Rightarrow> jsval list" where
  "Cartesian3_pack v array i =
     array_set (array_set (array_set array i (c3_x v)) (i + 1) (c3_y v)) (i + 2) (c3_z v)"

definition Cartesian3_unpack :: "jsval list \<Rightarrow> nat \<Rightarrow> cartesian3" where
  "Cartesian3_unpack array i =
     \<lparr>c3_x = array_get array i, c3_y = array_get array (i + 1), c3_z = array_get array (i + 2)\<rparr>"

definition Ellipsoid_packedLength :: nat where
  "Ellipsoid_packedLength = Cartesian3_packedLength"

definition Ellipsoid_pack :: "ellipsoid \<Rightarrow> jsval list \<Rightarrow> nat \<Rightarrow> jsval list" where
  "Ellipsoid_pack v array i = Cartesian3_pack (ellipsoid_radii v) array i"

definition Ellipsoid_unpack :: "jsval list \<Rightarrow> nat \<Rightarrow> ellipsoid" where
  "Ellipsoid_unpack array i = \<lparr>ellipsoid_radii = Cartesian3_unpack array i\<rparr>"

text \<open>
  Modelled from the spec: the constant \<open>Ellipsoid.UNIT_SPHERE\<close> (module \<open>Matrix2\<close>, not
  among the sources), the reference body whose three radii are 1.  The constant
  \<open>Ellipsoid.WGS84\<close> is a parameter of the functions that use it.
\<close>

definition Ellipsoid_UNIT_SPHERE :: ellipsoid where
  "Ellipsoid_UNIT_SPHERE = \<lparr>ellipsoid_radii = \<lparr>c3_x = Num 1, c3_y = Num 1, c3_z = Num 1\<rparr>\<rparr>"

section \<open>The canonical ellipse-like base description\<close>

text \<open>
  The option object of the circle and ellipse outlines.  JavaScript passes one object to
  whichever constructor reads it, so the record has every property the sources name: the
  constructor of the circle reads \<open>radius\<close>, the one of the ellipse reads the two axes.
  \<open>EMPTY_OBJECT\<close> is the object without properties that stands in for absent options.
\<close>

record outlineOptions =
  opt_center :: "addr option"
  opt_radius :: jsval
  opt_ellipsoid :: "addr option"
  opt_height :: jsval
  opt_extrudedHeight :: jsval
  opt_granularity :: jsval
  opt_numberOfVerticalLines :: jsval
  opt_semiMajorAxis :: jsval
  opt_semiMinorAxis :: jsval

definition EMPTY_OBJECT :: outlineOptions where
  "EMPTY_OBJECT =
     \<lparr>opt_center = None, opt_radius = Undefined, opt_ellipsoid = None, opt_height = Undefined,
      opt_extrudedHeight = Undefined, opt_granularity = Undefined,
      opt_numberOfVerticalLines = Undefined, opt_semiMajorAxis = Undefined,
      opt_semiMinorAxis = Undefined\<rparr>"

text \<open>
  Modelled from the spec: the fields of the class \<open>EllipseOutlineGeometry\<close> (module
  \<open>EllipseOutlineGeometry\<close>, not among the sources), the canonical base description of the
  circle outline (3).  They are the fields the circle's \<open>unpack\<close> reads from it.  A private
  field \<open>_name\<close> of the sources is the record field \<open>u_name\<close>.  The two references to the
  center and the reference body are a record of their own, which every ellipse-like
  description extends.
\<close>

record centered =
  u_center :: addr
  u_ellipsoid :: addr

record ellipseOutlineGeometry = centered +
  u_semiMajorAxis :: jsval
  u_semiMinorAxis :: jsval
  u_height :: jsval
  u_extrudedHeight :: jsval
  u_granularity :: jsval
  u_numberOfVerticalLines :: jsval

text \<open>
  Modelled from the spec: the constructor of \<open>EllipseOutlineGeometry\<close> (not among the
  sources).  By 4.2 it validates the required parameters, failing with InvalidArgument when
  the center is absent or an axis is absent or non-numeric; applies the defaults for the
  optional parameters, which the circle's documentation lists for the options it forwards
  unchanged (the ellipsoid \<open>Ellipsoid.WGS84\<close>, height 0.0, extrudedHeight 0.0, granularity
  0.02, numberOfVerticalLines 16); and derives the description, passing the center and the
  ellipsoid through a clone (4.1).  The specification states no range check, and none is
  modelled.  The constant \<open>Ellipsoid.WGS84\<close> is the parameter \<open>wgs84\<close>.
\<close>

definition EllipseOutlineGeometry ::
  "ellipsoid \<Rightarrow> 's store_scheme \<Rightarrow> outlineOptions
     \<Rightarrow> (error + ellipseOutlineGeometry) \<times> 's store_scheme" where
  "EllipseOutlineGeometry wgs84 st options =
     (case opt_center options of
        None \<Rightarrow> (Inl (DeveloperError ''center''), st)
      | Some center \<Rightarrow>
          (case Check_typeOf_number ''semiMajorAxis'' (opt_semiMajorAxis options) of
             Some e \<Rightarrow> (Inl e, st)
           | None \<Rightarrow>
               (case Check_typeOf_number ''semiMinorAxis'' (opt_semiMinorAxis options) of
                  Some e \<Rightarrow> (Inl e, st)
                | None \<Rightarrow>
                    (let (c, st1) = Cartesian3_clone st center None;
                         (e, st2) = (case opt_ellipsoid options of
                                       None \<Rightarrow> Ellipsoid_new st1 wgs84
                                     | Some ellipsoid \<Rightarrow> Ellipsoid_clone st1 ellipsoid None)
                     in (Inr \<lparr>u_center = c, u_ellipsoid = e,
                              u_semiMajorAxis = opt_semiMajorAxis options,
                              u_semiMinorAxis = opt_semiMinorAxis options,
                              u_height = defaultValue (opt_height options) (Num 0),
                              u_extrudedHeight = defaultValue (opt_extrudedHeight options) (Num 0),
                              u_granularity = defaultValue (opt_granularity options) (Num 0.02),
                              u_numberOfVerticalLines =
                                defaultValue (opt_numberOfVerticalLines options) (Num 16)\<rparr>,
                         st2)))))"

text \<open>
  Modelled from the spec: \<open>EllipseOutlineGeometry.packedLength\<close> and
  \<open>EllipseOutlineGeometry.pack\<close> (not among the sources).  By 4.1 \<open>pack\<close> writes the
  numeric fields of the description into the array from \<open>startingIndex\<close> on, which
  defaults to 0, and returns the array; \<open>packedLength\<close> is the number of elements written.
\<close>

definition EllipseOutlineGeometry_packedLength :: nat where
  "EllipseOutlineGeometry_packedLength = Cartesian3_packedLength + Ellipsoid_packedLength + 6"

definition EllipseOutlineGeometry_pack ::
  "'s store_scheme \<Rightarrow> ellipseOutlineGeometry \<Rightarrow> jsval list \<Rightarrow> nat option \<Rightarrow> jsval list" where
  "EllipseOutlineGeometry_pack st v array startingIndex =
     (let i = startIndex startingIndex;
          a1 = Cartesian3_pack (cartesians st (u_center v)) array i;
          a2 = Ellipsoid_pack (ellipsoids st (u_ellipsoid v)) a1 (i + 3);
          a3 = array_set a2 (i + 6) (u_semiMajorAxis v);
          a4 = array_set a3 (i + 7) (u_semiMinorAxis v);
          a5 = array_set a4 (i + 8) (u_height v);
          a6 = array_set a5 (i + 9) (u_granularity v);
          a7 = array_set a6 (i + 10) (u_extrudedHeight v)
      in array_set a7 (i + 11) (u_numberOfVerticalLines v))"

text \<open>
  Modelled from the spec: \<open>EllipseOutlineGeometry.unpack\<close> (not among the sources).  By 4.1
  it reads exactly \<open>packedLength\<close> numbers from \<open>startingIndex\<close> on and reconstructs every
  field that \<open>pack\<close> wrote; with a result object it mutates and returns that object, the
  two reference-frame values being cloned into the objects it holds; otherwise it allocates
  a new instance, through the constructor.
\<close>

definition EllipseOutlineGeometry_unpack ::
  "ellipsoid \<Rightarrow> 's store_scheme \<Rightarrow> jsval list \<Rightarrow> nat option \<Rightarrow> ellipseOutlineGeometry option
     \<Rightarrow> (error + ellipseOutlineGeometry) \<times> 's store_scheme" where
  "EllipseOutlineGeometry_unpack wgs84 st array startingIndex result =
     (let i = startIndex startingIndex;
          center = Cartesian3_unpack array i;
          ellipsoid = Ellipsoid_unpack array (i + 3)
      in case result of
           None \<Rightarrow>
             (let (c, st1) = Cartesian3_new st center;
                  (e, st2) = Ellipsoid_new st1 ellipsoid
              in EllipseOutlineGeometry wgs84 st2
                   \<lparr>opt_center = Some c, opt_radius = Undefined, opt_ellipsoid = Some e,
                    opt_height = array_get array (i + 8),
                    opt_extrudedHeight = array_get array (i + 10),
                    opt_granularity = array_get array (i + 9),
                    opt_numberOfVerticalLines = array_get array (i + 11),
                    opt_semiMajorAxis = array_get array (i + 6),
                    opt_semiMinorAxis = array_get array (i + 7)\<rparr>)
         | Some r \<Rightarrow>
             (Inr (r\<lparr>u_semiMajorAxis := array_get array (i + 6),
                     u_semiMinorAxis := array_get array (i + 7),
                     u_height := array_get array (i + 8),
                     u_granularity := array_get array (i + 9),
                     u_extrudedHeight := array_get array (i + 10),
                     u_numberOfVerticalLines := array_get array (i + 11)\<rparr>),
              st\<lparr>cartesians := (cartesians st)(u_center r := center),
                 ellipsoids := (ellipsoids st)(u_ellipsoid r := ellipsoid)\<rparr>))"

text \<open>
  The numeric content of a description with a center and a reference body: the components
  of the two objects it refers to, and its own remaining fields.  Two descriptions are
  equivalent when their contents are equal; the addresses (the identity of the two objects)
  are not part of it.
\<close>

definition content :: "'s store_scheme \<Rightarrow> 'd centered_scheme \<Rightarrow> cartesian3 \<times> ellipsoid \<times> 'd" where
  "content st d = (cartesians st (u_center d), ellipsoids st (u_ellipsoid d), centered.more d)"

text \<open>
  Modelled from the spec: \<open>EllipseOutlineGeometry.createGeometry\<close> (not among the sources),
  the tessellation.  By 4.2 it is a pure function, deterministic given identical numeric
  inputs: a parameter \<open>create\<close> applied to the content of the description.
\<close>

definition EllipseOutlineGeometry_createGeometry ::
  "(cartesian3 \<times> ellipsoid \<times> 'd \<Rightarrow> 'g) \<Rightarrow> 's store_scheme \<Rightarrow> 'd centered_scheme \<Rightarrow> 'g" where
  "EllipseOutlineGeometry_createGeometry create st ellipseGeometry =
     create (content st ellipseGeometry)"

section \<open>CircleOutlineGeometry (createCircleOutlineGeometry.js)\<close>

record circleOutlineGeometry =
  u_ellipseGeometry :: ellipseOutlineGeometry
  u_workerName :: string

definition CircleOutlineGeometry ::
  "ellipsoid \<Rightarrow> 's store_scheme \<Rightarrow> outlineOptions option
     \<Rightarrow> (error + circleOutlineGeometry) \<times> 's store_scheme" where
  "CircleOutlineGeometry wgs84 st options0 =
     (let options = (case options0 of None \<Rightarrow> EMPTY_OBJECT | Some opts \<Rightarrow> opts);
          radius = opt_radius options
      in case Check_typeOf_number ''radius'' radius of
           Some e \<Rightarrow> (Inl e, st)
         | None \<Rightarrow>
             (let ellipseGeometryOptions =
                    \<lparr>opt_center = opt_center options,
                     opt_radius = Undefined,
                     opt_ellipsoid = opt_ellipsoid options,
                     opt_height = opt_height options,
                     opt_extrudedHeight = opt_extrudedHeight options,
                     opt_granularity = opt_granularity options,
                     opt_numberOfVerticalLines = opt_numberOfVerticalLines options,
                     opt_semiMajorAxis = radius,
                     opt_semiMinorAxis = radius\<rparr>
              in case EllipseOutlineGeometry wgs84 st ellipseGeometryOptions of
                   (Inl e, st1) \<Rightarrow> (Inl e, st1)
                 | (Inr ellipseGeometry, st1) \<Rightarrow>
                     (Inr \<lparr>u_ellipseGeometry = ellipseGeometry,
                           u_workerName = ''createCircleOutlineGeometry''\<rparr>, st1)))"

definition CircleOutlineGeometry_packedLength :: nat where
  "CircleOutlineGeometry_packedLength = EllipseOutlineGeometry_packedLength"

definition CircleOutlineGeometry_pack ::
  "'s store_scheme \<Rightarrow> circleOutlineGeometry option \<Rightarrow> jsval list \<Rightarrow> nat option
     \<Rightarrow> error + jsval list" where
  "CircleOutlineGeometry_pack st v array startingIndex =
     (case Check_typeOf_object ''value'' v of
        Some e \<Rightarrow> Inl e
      | None \<Rightarrow>
          (case v of
             None \<Rightarrow> Inl (TypeError ''value'')
           | Some circle \<Rightarrow>
               Inr (EllipseOutlineGeometry_pack st (u_ellipseGeometry circle) array startingIndex)))"

text \<open>
  The module-level variables \<open>scratchEllipseGeometry\<close> and \<open>scratchOptions\<close> of the circle
  module, next to the store.  They are created when the module is loaded and live as long
  as the worker.
\<close>

record circle_state = store +
  scratchEllipseGeometry :: ellipseOutlineGeometry
  scratchOptions :: outlineOptions

definition CircleOutlineGeometry_unpack ::
  "ellipsoid \<Rightarrow> 's circle_state_scheme \<Rightarrow> jsval list \<Rightarrow> nat option
     \<Rightarrow> circleOutlineGeometry option
     \<Rightarrow> (error + circleOutlineGeometry) \<times> 's circle_state_scheme" where
  "CircleOutlineGeometry_unpack wgs84 st array startingIndex result =
     (case EllipseOutlineGeometry_unpack wgs84 st array startingIndex
             (Some (scratchEllipseGeometry st)) of
        (Inl e, st1) \<Rightarrow> (Inl e, st1)
      | (Inr ellipseGeometry, st1) \<Rightarrow>
          (let st2 = st1\<lparr>scratchEllipseGeometry := ellipseGeometry\<rparr>;
               (c, st3) = Cartesian3_clone st2 (u_center ellipseGeometry)
                            (opt_center (scratchOptions st2));
               st4 = st3\<lparr>scratchOptions := (scratchOptions st3)\<lparr>opt_center := Some c\<rparr>\<rparr>;
               (e, st5) = Ellipsoid_clone st4 (u_ellipsoid ellipseGeometry)
                            (opt_ellipsoid (scratchOptions st4));
               st6 = st5\<lparr>scratchOptions := (scratchOptions st5)
                       \<lparr>opt_ellipsoid := Some e,
                        opt_height := u_height ellipseGeometry,
                        opt_extrudedHeight := u_extrudedHeight ellipseGeometry,
                        opt_granularity := u_granularity ellipseGeometry,
                        opt_numberOfVerticalLines := u_numberOfVerticalLines ellipseGeometry\<rparr>\<rparr>
           in case result of
                None \<Rightarrow>
                  (let st7 = st6\<lparr>scratchOptions := (scratchOptions st6)
                               \<lparr>opt_radius := u_semiMajorAxis ellipseGeometry\<rparr>\<rparr>
                   in CircleOutlineGeometry wgs84 st7 (Some (scratchOptions st7)))
              | Some res \<Rightarrow>
                  (let st7 = st6\<lparr>scratchOptions := (scratchOptions st6)
                               \<lparr>opt_semiMajorAxis := u_semiMajorAxis ellipseGeometry,
                                opt_semiMinorAxis := u_semiMinorAxis ellipseGeometry\<rparr>\<rparr>
                   in case EllipseOutlineGeometry wgs84 st7 (scratchOptions st7) of
                        (Inl e, st8) \<Rightarrow> (Inl e, st8)
                      | (Inr eg, st8) \<Rightarrow> (Inr (res\<lparr>u_ellipseGeometry := eg\<rparr>), st8))))"

definition CircleOutlineGeometry_createGeometry ::
  "(cartesian3 \<times> ellipsoid \<times> _ \<Rightarrow> 'g) \<Rightarrow> 's store_scheme \<Rightarrow> circleOutlineGeometry \<Rightarrow> 'g" where
  "CircleOutlineGeometry_createGeometry create st circleGeometry =
     EllipseOutlineGeometry_createGeometry create st (u_ellipseGeometry circleGeometry)"

text \<open>
  The first argument of a creation entrypoint is a packed array or an already constructed
  description.  \<open>elements\<close> are the indexed elements the JavaScript object has: those of
  the array, none for a description.
\<close>

datatype 'd jsarg = PackedArray "jsval list" | Description 'd

fun elements :: "'d jsarg \<Rightarrow> jsval list" where
  "elements (PackedArray a) = a"
| "elements (Description d) = []"

text \<open>
  The entrypoint returns the geometry; the description it worked on is an object the caller
  may hold, so the model returns it as the call left it, next to the geometry.  Without an
  offset an array has no \<open>_ellipseGeometry\<close>, and reading \<open>_center\<close> of it raises.
\<close>

definition createCircleOutlineGeometry ::
  "ellipsoid \<Rightarrow> (cartesian3 \<times> ellipsoid \<times> _ \<Rightarrow> 'g) \<Rightarrow> 's circle_state_scheme
     \<Rightarrow> circleOutlineGeometry jsarg \<Rightarrow> nat option
     \<Rightarrow> (error + 'g \<times> circleOutlineGeometry) \<times> 's circle_state_scheme" where
  "createCircleOutlineGeometry wgs84 create st arg offset =
     (case (case offset of
              Some off \<Rightarrow> CircleOutlineGeometry_unpack wgs84 st (elements arg) (Some off) None
            | None \<Rightarrow>
                (case arg of
                   Description d \<Rightarrow> (Inr d, st)
                 | PackedArray a \<Rightarrow> (Inl (TypeError ''_center''), st))) of
        (Inl e, st1) \<Rightarrow> (Inl e, st1)
      | (Inr circleGeometry, st1) \<Rightarrow>
          (let (c, st2) = Cartesian3_clone st1 (u_center (u_ellipseGeometry circleGeometry)) None;
               circleGeometry1 = circleGeometry
                 \<lparr>u_ellipseGeometry := (u_ellipseGeometry circleGeometry)\<lparr>u_center := c\<rparr>\<rparr>;
               (e, st3) = Ellipsoid_clone st2 (u_ellipsoid (u_ellipseGeometry circleGeometry1)) None;
               circleGeometry2 = circleGeometry1
                 \<lparr>u_ellipseGeometry := (u_ellipseGeometry circleGeometry1)\<lparr>u_ellipsoid := e\<rparr>\<rparr>
           in (Inr (CircleOutlineGeometry_createGeometry create st3 circleGeometry2,
                    circleGeometry2), st3)))"

text \<open>
  Loading the module creates the two scratch objects.  The first allocations of a worker:
  the store starts empty, with whatever the cells hold before they are allocated.
\<close>

definition circle_module_load :: "ellipsoid \<Rightarrow> store \<Rightarrow> error + circle_state" where
  "circle_module_load wgs84 st =
     (let (c0, st1) = Cartesian3_new st \<lparr>c3_x = Num 0, c3_y = Num 0, c3_z = Num 0\<rparr>
      in case EllipseOutlineGeometry wgs84 st1
                (EMPTY_OBJECT\<lparr>opt_center := Some c0, opt_semiMajorAxis := Num 1,
                              opt_semiMinorAxis := Num 1\<rparr>) of
           (Inl e, st2) \<Rightarrow> Inl e
         | (Inr scratch, st2) \<Rightarrow>
             (let (c1, st3) = Cartesian3_new st2 \<lparr>c3_x = Num 0, c3_y = Num 0, c3_z = Num 0\<rparr>;
                  (e1, st4) = Ellipsoid_new st3 Ellipsoid_UNIT_SPHERE
              in Inr \<lparr>cartesians = cartesians st4, ellipsoids = ellipsoids st4,
                      fresh = fresh st4, scratchEllipseGeometry = scratch,
                      scratchOptions = EMPTY_OBJECT\<lparr>opt_center := Some c1,
                                                     opt_ellipsoid := Some e1\<rparr>\<rparr>))"

section \<open>The canonical ellipsoid-like base description\<close>

text \<open>
  The option object of the sphere and ellipsoid outlines, with every property the sources
  name: the constructor of the sphere reads \<open>radius\<close>, the one of the ellipsoid reads
  \<open>radii\<close>.  \<open>EMPTY_SPHERE_OPTIONS\<close> is the object without properties.
\<close>

record sphereOptions =
  sopt_radius :: jsval
  sopt_radii :: "addr option"
  sopt_stackPartitions :: jsval
  sopt_slicePartitions :: jsval
  sopt_subdivisions :: jsval

definition EMPTY_SPHERE_OPTIONS :: sphereOptions where
  "EMPTY_SPHERE_OPTIONS =
     \<lparr>sopt_radius = Undefined, sopt_radii = None, sopt_stackPartitions = Undefined,
      sopt_slicePartitions = Undefined, sopt_subdivisions = Undefined\<rparr>"

text \<open>
  Modelled from the spec: the fields of the class \<open>EllipsoidOutlineGeometry\<close> (module
  \<open>EllipsoidOutlineGeometry\<close>, not among the sources), the canonical base description of the
  sphere outline: three radii and the partition counts (3).  They are the fields the
  sphere's \<open>unpack\<close> reads from it.
\<close>

record ellipsoidOutlineGeometry =
  u_radii :: addr
  u_stackPartitions :: jsval
  u_slicePartitions :: jsval
  u_subdivisions :: jsval

text \<open>
  Modelled from the spec: the constructor of \<open>EllipsoidOutlineGeometry\<close> (not among the
  sources).  It has no mandatory parameter and may be called without options, as the sphere
  module does for its scratch instance.  By 4.2 it applies the defaults for the optional
  parameters, which the sphere's documentation lists for the options it forwards
  (stackPartitions 10, slicePartitions 8, subdivisions 200; the radii of the unit sphere
  when none are given), and derives the description, passing the radii through a clone
  (4.1).  The specification states no range check, and none is modelled.
\<close>

definition EllipsoidOutlineGeometry ::
  "'s store_scheme \<Rightarrow> sphereOptions option \<Rightarrow> ellipsoidOutlineGeometry \<times> 's store_scheme" where
  "EllipsoidOutlineGeometry st options0 =
     (let options = (case options0 of None \<Rightarrow> EMPTY_SPHERE_OPTIONS | Some opts \<Rightarrow> opts);
          (r, st1) = (case sopt_radii options of
                        None \<Rightarrow> Cartesian3_new st (ellipsoid_radii Ellipsoid_UNIT_SPHERE)
                      | Some radii \<Rightarrow> Cartesian3_clone st radii None)
      in (\<lparr>u_radii = r,
           u_stackPartitions = defaultValue (sopt_stackPartitions options) (Num 10),
           u_slicePartitions = defaultValue (sopt_slicePartitions options) (Num 8),
           u_subdivisions = defaultValue (sopt_subdivisions options) (Num 200)\<rparr>, st1))"

text \<open>
  Modelled from the spec: \<open>EllipsoidOutlineGeometry.packedLength\<close> and
  \<open>EllipsoidOutlineGeometry.pack\<close> (not among the sources), by the protocol of 4.1, as
  for the ellipse.
\<close>

definition EllipsoidOutlineGeometry_packedLength :: nat where
  "EllipsoidOutlineGeometry_packedLength = Cartesian3_packedLength + 3"

definition EllipsoidOutlineGeometry_pack ::
  "'s store_scheme \<Rightarrow> ellipsoidOutlineGeometry \<Rightarrow> jsval list \<Rightarrow> nat option \<Rightarrow> jsval list" where
  "EllipsoidOutlineGeometry_pack st v array startingIndex =
     (let i = startIndex startingIndex;
          a1 = Cartesian3_pack (cartesians st (u_radii v)) array i;
          a2 = array_set a1 (i + 3) (u_stackPartitions v);
          a3 = array_set a2 (i + 4) (u_slicePartitions v)
      in array_set a3 (i + 5) (u_subdivisions v))"

text \<open>
  Modelled from the spec: \<open>EllipsoidOutlineGeometry.unpack\<close> (not among the sources), by
  the protocol of 4.1, as for the ellipse: with a result object it mutates and returns that
  object, otherwise it allocates a new instance through the constructor.
\<close>

definition EllipsoidOutlineGeometry_unpack ::
  "'s store_scheme \<Rightarrow> jsval list \<Rightarrow> nat option \<Rightarrow> ellipsoidOutlineGeometry option
     \<Rightarrow> ellipsoidOutlineGeometry \<times> 's store_scheme" where
  "EllipsoidOutlineGeometry_unpack st array startingIndex result =
     (let i = startIndex startingIndex;
          radii = Cartesian3_unpack array i
      in case result of
           None \<Rightarrow>
             (let (r, st1) = Cartesian3_new st radii
              in EllipsoidOutlineGeometry st1
                   (Some \<lparr>sopt_radius = Undefined, sopt_radii = Some r,
                          sopt_stackPartitions = array_get array (i + 3),
                          sopt_slicePartitions = array_get array (i + 4),
                          sopt_subdivisions = array_get array (i + 5)\<rparr>))
         | Some res \<Rightarrow>
             (res\<lparr>u_stackPartitions := array_get array (i + 3),
                  u_slicePartitions := array_get array (i + 4),
                  u_subdivisions := array_get array (i + 5)\<rparr>,
              st\<lparr>cartesians := (cartesians st)(u_radii res := radii)\<rparr>))"

text \<open>
  The numeric content of an ellipsoid-like description: the components of its radii and
  its partition counts.
\<close>

definition ellipsoid_content ::
  "'s store_scheme \<Rightarrow> ellipsoidOutlineGeometry \<Rightarrow> cartesian3 \<times> jsval \<times> jsval \<times> jsval" where
  "ellipsoid_content st d =
     (cartesians st (u_radii d), u_stackPartitions d, u_slicePartitions d, u_subdivisions d)"

text \<open>
  Modelled from the spec: \<open>EllipsoidOutlineGeometry.createGeometry\<close> (not among the
  sources), the tessellation.  By 4.2 it is a pure function of the numeric inputs: a
  parameter \<open>create\<close> applied to the content of the description, or to no content when it
  is handed no description.
\<close>

definition EllipsoidOutlineGeometry_createGeometry ::
  "((cartesian3 \<times> jsval \<times> jsval \<times> jsval) option \<Rightarrow> 'g) \<Rightarrow> 's store_scheme
     \<Rightarrow> ellipsoidOutlineGeometry option \<Rightarrow> 'g" where
  "EllipsoidOutlineGeometry_createGeometry create st ellipsoidGeometry =
     create (map_option (ellipsoid_content st) ellipsoidGeometry)"

section \<open>SphereOutlineGeometry (createSphereOutlineGeometry.js)\<close>

record sphereOutlineGeometry =
  u_ellipsoidGeometry :: ellipsoidOutlineGeometry
  u_sphereWorkerName :: string

text \<open>
  The constructor reads \<open>options.radius\<close> first: with no options object that read raises
  the language's TypeError.
\<close>

definition SphereOutlineGeometry ::
  "'s store_scheme \<Rightarrow> sphereOptions option \<Rightarrow> (error + sphereOutlineGeometry) \<times> 's store_scheme" where
  "SphereOutlineGeometry st options0 =
     (case options0 of
        None \<Rightarrow> (Inl (TypeError ''radius''), st)
      | Some options \<Rightarrow>
          (let radius = defaultValue (sopt_radius options) (Num 1.0);
               (radii, st1) = Cartesian3_new st \<lparr>c3_x = radius, c3_y = radius, c3_z = radius\<rparr>;
               ellipsoidOptions =
                 \<lparr>sopt_radius = Undefined,
                  sopt_radii = Some radii,
                  sopt_stackPartitions = sopt_stackPartitions options,
                  sopt_slicePartitions = sopt_slicePartitions options,
                  sopt_subdivisions = sopt_subdivisions options\<rparr>;
               (ellipsoidGeometry, st2) = EllipsoidOutlineGeometry st1 (Some ellipsoidOptions)
           in (Inr \<lparr>u_ellipsoidGeometry = ellipsoidGeometry,
                    u_sphereWorkerName = ''createSphereOutlineGeometry''\<rparr>, st2)))"

definition SphereOutlineGeometry_packedLength :: nat where
  "SphereOutlineGeometry_packedLength = EllipsoidOutlineGeometry_packedLength"

definition SphereOutlineGeometry_pack ::
  "'s store_scheme \<Rightarrow> sphereOutlineGeometry option \<Rightarrow> jsval list \<Rightarrow> nat option
     \<Rightarrow> error + jsval list" where
  "SphereOutlineGeometry_pack st v array startingIndex =
     (case Check_typeOf_object ''value'' v of
        Some e \<Rightarrow> Inl e
      | None \<Rightarrow>
          (case v of
             None \<Rightarrow> Inl (TypeError ''value'')
           | Some sphere \<Rightarrow>
               Inr (EllipsoidOutlineGeometry_pack st (u_ellipsoidGeometry sphere) array
                      startingIndex)))"

text \<open>
  The module-level variables \<open>scratchEllipsoidGeometry\<close> and \<open>scratchOptions\<close> of the sphere
  module (the latter renamed, the circle module has a variable of the same name).
\<close>

record sphere_state = store +
  scratchEllipsoidGeometry :: ellipsoidOutlineGeometry
  sphereScratchOptions :: sphereOptions

definition SphereOutlineGeometry_unpack ::
  "'s sphere_state_scheme \<Rightarrow> jsval list \<Rightarrow> nat option \<Rightarrow> sphereOutlineGeometry option
     \<Rightarrow> (error + sphereOutlineGeometry) \<times> 's sphere_state_scheme" where
  "SphereOutlineGeometry_unpack st array startingIndex result =
     (let (ellipsoidGeometry, st1) =
            EllipsoidOutlineGeometry_unpack st array startingIndex
              (Some (scratchEllipsoidGeometry st));
          st2 = st1\<lparr>scratchEllipsoidGeometry := ellipsoidGeometry\<rparr>;
          st3 = st2\<lparr>sphereScratchOptions := (sphereScratchOptions st2)
                  \<lparr>sopt_stackPartitions := u_stackPartitions ellipsoidGeometry,
                   sopt_slicePartitions := u_slicePartitions ellipsoidGeometry,
                   sopt_subdivisions := u_subdivisions ellipsoidGeometry\<rparr>\<rparr>
      in case result of
           None \<Rightarrow>
             (let st4 = st3\<lparr>sphereScratchOptions := (sphereScratchOptions st3)
                          \<lparr>sopt_radius := c3_x (cartesians st3 (u_radii ellipsoidGeometry))\<rparr>\<rparr>
              in SphereOutlineGeometry st4 (Some (sphereScratchOptions st4)))
         | Some res \<Rightarrow>
             (let (r, st4) = Cartesian3_clone st3 (u_radii ellipsoidGeometry)
                               (sopt_radii (sphereScratchOptions st3));
                  (eg, st5) = EllipsoidOutlineGeometry st4 (Some (sphereScratchOptions st4))
              in (Inr (res\<lparr>u_ellipsoidGeometry := eg\<rparr>), st5)))"

definition SphereOutlineGeometry_createGeometry ::
  "((cartesian3 \<times> jsval \<times> jsval \<times> jsval) option \<Rightarrow> 'g) \<Rightarrow> 's store_scheme
     \<Rightarrow> sphereOutlineGeometry option \<Rightarrow> 'g" where
  "SphereOutlineGeometry_createGeometry create st sphereGeometry =
     EllipsoidOutlineGeometry_createGeometry create st
       (map_option u_ellipsoidGeometry sphereGeometry)"

definition createSphereOutlineGeometry ::
  "((cartesian3 \<times> jsval \<times> jsval \<times> jsval) option \<Rightarrow> 'g) \<Rightarrow> 's sphere_state_scheme
     \<Rightarrow> sphereOutlineGeometry jsarg \<Rightarrow> nat option \<Rightarrow> (error + 'g) \<times> 's sphere_state_scheme" where
  "createSphereOutlineGeometry create st arg offset =
     (case (case offset of
              Some off \<Rightarrow>
                (case SphereOutlineGeometry_unpack st (elements arg) (Some off) None of
                   (Inl e, st1) \<Rightarrow> (Inl e, st1)
                 | (Inr d, st1) \<Rightarrow> (Inr (Some d), st1))
            | None \<Rightarrow>
                (Inr (case arg of Description d \<Rightarrow> Some d | PackedArray a \<Rightarrow> None), st)) of
        (Inl e, st1) \<Rightarrow> (Inl e, st1)
      | (Inr sphereGeometry, st1) \<Rightarrow>
          (Inr (SphereOutlineGeometry_createGeometry create st1 sphereGeometry), st1))"

definition sphere_module_load :: "store \<Rightarrow> sphere_state" where
  "sphere_module_load st =
     (let (scratch, st1) = EllipsoidOutlineGeometry st None;
          (r, st2) = Cartesian3_new st1 \<lparr>c3_x = Num 0, c3_y = Num 0, c3_z = Num 0\<rparr>
      in \<lparr>cartesians = cartesians st2, ellipsoids = ellipsoids st2, fresh = fresh st2,
          scratchEllipsoidGeometry = scratch,
          sphereScratchOptions = EMPTY_SPHERE_OPTIONS\<lparr>sopt_radii := Some r\<rparr>\<rparr>)"

section \<open>createEllipseGeometry.js and createCylinderGeometry.js\<close>

text \<open>
  The classes \<open>EllipseGeometry\<close> and \<open>CylinderGeometry\<close> are not among the sources, and
  the two entrypoints are modelled for any such class: \<open>unpack\<close> and \<open>createGeometry\<close> are
  parameters.  An ellipse
  description is any record with a center and a reference body; \<open>unpack\<close> allocates them,
  so it works on the store.  Per 4.2 \<open>createGeometry\<close> is a function of the numeric
  content; it receives no content when the entrypoint is handed an array and no offset, an
  object without the fields of a description (the clone of an absent object is absent).
  A cylinder description is opaque, and its \<open>createGeometry\<close> is applied to whatever the
  entrypoint holds.
\<close>

definition createEllipseGeometry ::
  "('s store_scheme \<Rightarrow> jsval list \<Rightarrow> nat \<Rightarrow> (error + 'd centered_scheme) \<times> 's store_scheme)
     \<Rightarrow> ((cartesian3 \<times> ellipsoid \<times> 'd) option \<Rightarrow> 'g) \<Rightarrow> 's store_scheme
     \<Rightarrow> 'd centered_scheme jsarg \<Rightarrow> nat option
     \<Rightarrow> (error + 'g \<times> 'd centered_scheme jsarg) \<times> 's store_scheme" where
  "createEllipseGeometry unpack create st arg offset =
     (case (case offset of
              Some off \<Rightarrow>
                (case unpack st (elements arg) off of
                   (Inl e, st1) \<Rightarrow> (Inl e, st1)
                 | (Inr d, st1) \<Rightarrow> (Inr (Description d), st1))
            | None \<Rightarrow> (Inr arg, st)) of
        (Inl e, st1) \<Rightarrow> (Inl e, st1)
      | (Inr (PackedArray a), st1) \<Rightarrow> (Inr (create None, PackedArray a), st1)
      | (Inr (Description ellipseGeometry), st1) \<Rightarrow>
          (let (c, st2) = Cartesian3_clone st1 (u_center ellipseGeometry) None;
               ellipseGeometry1 = ellipseGeometry\<lparr>u_center := c\<rparr>;
               (e, st3) = Ellipsoid_clone st2 (u_ellipsoid ellipseGeometry1) None;
               ellipseGeometry2 = ellipseGeometry1\<lparr>u_ellipsoid := e\<rparr>
           in (Inr (create (Some (content st3 ellipseGeometry2)), Description ellipseGeometry2),
               st3)))"

definition createCylinderGeometry ::
  "(jsval list \<Rightarrow> nat \<Rightarrow> error + 'd) \<Rightarrow> ('d jsarg \<Rightarrow> 'g) \<Rightarrow> 'd jsarg \<Rightarrow> nat option
     \<Rightarrow> error + 'g" where
  "createCylinderGeometry unpack create arg offset =
     (case (case offset of
              Some off \<Rightarrow>
                (case unpack (elements arg) off of
                   Inl e \<Rightarrow> Inl e
                 | Inr d \<Rightarrow> Inr (Description d))
            | None \<Rightarrow> Inr arg) of
        Inl e \<Rightarrow> Inl e
      | Inr cylinderGeometry \<Rightarrow> Inr (create cylinderGeometry))"

section \<open>The worker dispatcher (createGeometry.js)\<close>

text \<open>
  A value that travels through the dispatcher (a packed description, a geometry) is
  opaque, of type \<open>'v\<close>.  What a creation function returns, and what a slot of
  \<open>resultsOrPromises\<close> holds, is a result or a promise; a promise is represented by what it
  completes to, a value or a failure.  A creation function takes the task's geometry and
  offset, and returns such a slot value or raises.

  The surroundings of the module are its parameters, a record: whether \<open>exports\<close> is an
  object (CommonJS) or not (AMD), the load mechanism \<open>require\<close>, which yields the creation
  function of a module path or fails, the string a function converts to when it is used as
  a property key, and the value \<open>undefined\<close>.  The state of the module is \<open>moduleCache\<close>, an
  object used as a map from property keys to creation functions, together with the list of
  the paths \<open>require\<close> has been called with, which is how a load counter observes the
  module.
\<close>

datatype 'v resultOrPromise = Result 'v | Promise "error + 'v"

type_synonym 'v createFunction = "'v \<Rightarrow> nat option \<Rightarrow> error + 'v resultOrPromise"

record 'v environment =
  exports_is_object :: bool
  require :: "string \<Rightarrow> error + 'v createFunction"
  functionToString :: "'v createFunction \<Rightarrow> string"
  undefinedValue :: 'v

record 'v dispatcher_state =
  moduleCache :: "string \<rightharpoonup> 'v createFunction"
  required :: "string list"

text \<open>
  \<open>getModule\<close>.  In the CommonJS branch the target \<open>moduleCache[module]\<close> of the assignment
  is evaluated before its right-hand side, while \<open>module\<close> is still undefined: the property
  key is the string \<open>undefined\<close>.  In the AMD branch the callback stores the function under
  the key \<open>module\<close> after \<open>module = f\<close>: the key is the function converted to a string.
  There \<open>require\<close> is synchronous, as the source's comment says; when the load fails the
  callback does not run and \<open>module\<close> stays undefined (\<open>None\<close>).
\<close>

definition getModule ::
  "'v environment \<Rightarrow> 'v dispatcher_state \<Rightarrow> string
     \<Rightarrow> (error + 'v createFunction option) \<times> 'v dispatcher_state" where
  "getModule env st moduleName =
     (case moduleCache st moduleName of
        Some module' \<Rightarrow> (Inr (Some module'), st)
      | None \<Rightarrow>
          (let st1 = st\<lparr>required := required st @ [''Workers/'' @ moduleName]\<rparr>
           in if exports_is_object env then
                (case require env (''Workers/'' @ moduleName) of
                   Inl e \<Rightarrow> (Inl e, st1)
                 | Inr module' \<Rightarrow>
                     (Inr (Some module'),
                      st1\<lparr>moduleCache := (moduleCache st1)(''undefined'' \<mapsto> module')\<rparr>))
              else
                (case require env (''Workers/'' @ moduleName) of
                   Inl e \<Rightarrow> (Inr None, st1)
                 | Inr f \<Rightarrow>
                     (Inr (Some f),
                      st1\<lparr>moduleCache := (moduleCache st1)(functionToString env f \<mapsto> f)\<rparr>))))"

record 'v task =
  task_geometry :: 'v
  task_moduleName :: "string option"
  task_offset :: "nat option"

record 'v parameters =
  subTasks :: "'v task list"

text \<open>
  One iteration of the loop of \<open>createGeometry\<close>: the value the iteration stores in its slot
  of \<open>resultsOrPromises\<close>, or the condition it raises.  Calling an undefined
  \<open>createFunction\<close> raises the language's TypeError.
\<close>

definition runTask ::
  "'v environment \<Rightarrow> 'v dispatcher_state \<Rightarrow> 'v task
     \<Rightarrow> (error + 'v resultOrPromise) \<times> 'v dispatcher_state" where
  "runTask env st task =
     (let geometry = task_geometry task;
          moduleName = task_moduleName task
      in case moduleName of
           Some name \<Rightarrow>
             (case getModule env st name of
                (Inl e, st1) \<Rightarrow> (Inl e, st1)
              | (Inr None, st1) \<Rightarrow> (Inl (TypeError ''createFunction''), st1)
              | (Inr (Some createFunction), st1) \<Rightarrow>
                  (createFunction geometry (task_offset task), st1))
         | None \<Rightarrow> (Inr (Result geometry), st))"

text \<open>
  The loop, with its counter \<open>i\<close> and the array \<open>resultsOrPromises\<close>, which the source
  allocates with \<open>length\<close> empty slots, reading as undefined, and fills by index.  A
  condition raised in an iteration leaves the loop and the function.
\<close>

function createGeometry_loop ::
  "'v environment \<Rightarrow> 'v task list \<Rightarrow> nat \<Rightarrow> 'v resultOrPromise list \<Rightarrow> 'v dispatcher_state
     \<Rightarrow> (error + 'v resultOrPromise list) \<times> 'v dispatcher_state" where
  "createGeometry_loop env tasks i resultsOrPromises st =
     (if i < length tasks then
        (case runTask env st (tasks ! i) of
           (Inl e, st1) \<Rightarrow> (Inl e, st1)
         | (Inr r, st1) \<Rightarrow>
             createGeometry_loop env tasks (i + 1) (resultsOrPromises[i := r]) st1)
      else (Inr resultsOrPromises, st))"
  by pat_completeness auto
termination
  by (relation "measure (\<lambda>(env, tasks, i, rs, st). length tasks - i)") auto

text \<open>
  Modelled from the spec: \<open>when.all\<close> of module \<open>when\<close> and
  \<open>PrimitivePipeline.packCreateGeometryResults\<close>, neither among the sources.  Each slot
  holds an immediate result or a pending computation, and the dispatcher waits for all of
  them (4.4): when a sub-task fails the completion of the batch fails with that condition,
  and otherwise the results go, in slot order, to the packer, a parameter, which builds
  the manifest.
\<close>

fun when_all :: "'v resultOrPromise list \<Rightarrow> error + 'v list" where
  "when_all [] = Inr []"
| "when_all (Result v # ps) =
     (case when_all ps of Inl e \<Rightarrow> Inl e | Inr rs \<Rightarrow> Inr (v # rs))"
| "when_all (Promise (Inl e) # ps) = Inl e"
| "when_all (Promise (Inr v) # ps) =
     (case when_all ps of Inl e \<Rightarrow> Inl e | Inr rs \<Rightarrow> Inr (v # rs))"

definition createGeometry ::
  "'v environment \<Rightarrow> ('v list \<Rightarrow> 't \<Rightarrow> 'm) \<Rightarrow> 'v dispatcher_state
     \<Rightarrow> 'v parameters \<Rightarrow> 't \<Rightarrow> (error + 'm) \<times> 'v dispatcher_state" where
  "createGeometry env packCreateGeometryResults st parameters transferableObjects =
     (let tasks = subTasks parameters;
          len = length tasks;
          resultsOrPromises = replicate len (Result (undefinedValue env))
      in case createGeometry_loop env tasks 0 resultsOrPromises st of
           (Inl e, st1) \<Rightarrow> (Inl e, st1)
         | (Inr resultsOrPromises1, st1) \<Rightarrow>
             (case when_all resultsOrPromises1 of
                Inl e \<Rightarrow> (Inl e, st1)
              | Inr results \<Rightarrow>
                  (Inr (packCreateGeometryResults results transferableObjects), st1)))"

text \<open>
  The state of the module when iteration \<open>i\<close> of the loop begins, after the iterations
  before it.
\<close>

fun stateBefore ::
  "'v environment \<Rightarrow> 'v dispatcher_state \<Rightarrow> 'v task list \<Rightarrow> nat \<Rightarrow> 'v dispatcher_state" where
  "stateBefore env st tasks 0 = st"
| "stateBefore env st tasks (Suc i) = snd (runTask env (stateBefore env st tasks i) (tasks ! i))"

text \<open>
  What sub-task \<open>k\<close> of a batch completes to: the condition its creation raises, at once
  or as the failure of the promise it returned, or else its result.
\<close>

definition subTaskOutcome ::
  "'v environment \<Rightarrow> 'v dispatcher_state \<Rightarrow> 'v task list \<Rightarrow> nat \<Rightarrow> error + 'v" where
  "subTaskOutcome env st tasks k =
     (case fst (runTask env (stateBefore env st tasks k) (tasks ! k)) of
        Inl e \<Rightarrow> Inl e
      | Inr (Result v) \<Rightarrow> Inr v
      | Inr (Promise p) \<Rightarrow> p)"

section \<open>What a caller observes of an unpacked description\<close>

text \<open>
  The condition raised, or the numeric content of the description returned together with
  its worker name.
\<close>

definition circle_outcome ::
  "(error + circleOutlineGeometry) \<times> 's store_scheme
     \<Rightarrow> error + (cartesian3 \<times> ellipsoid \<times> _) \<times> string" where
  "circle_outcome res =
     (case res of
        (Inl e, st) \<Rightarrow> Inl e
      | (Inr d, st) \<Rightarrow> Inr (content st (u_ellipseGeometry d), u_workerName d))"

definition sphere_outcome ::
  "(error + sphereOutlineGeometry) \<times> 's store_scheme
     \<Rightarrow> error + (cartesian3 \<times> jsval \<times> jsval \<times> jsval) \<times> string" where
  "sphere_outcome res =
     (case res of
        (Inl e, st) \<Rightarrow> Inl e
      | (Inr d, st) \<Rightarrow> Inr (ellipsoid_content st (u_ellipsoidGeometry d), u_sphereWorkerName d))"

text \<open>
  A history of calls to the packing protocol of the circle module, and the state of the
  module after it.  Packing reads the store and writes to the caller's array only.
\<close>

datatype circle_call =
  CallConstruct "outlineOptions option"
| CallPack "circleOutlineGeometry option" "jsval list" "nat option"
| CallUnpack "jsval list" "nat option" "circleOutlineGeometry option"

fun circle_run :: "ellipsoid \<Rightarrow> circle_state \<Rightarrow> circle_call list \<Rightarrow> circle_state" where
  "circle_run wgs84 st [] = st"
| "circle_run wgs84 st (CallConstruct options # calls) =
     circle_run wgs84 (snd (CircleOutlineGeometry wgs84 st options)) calls"
| "circle_run wgs84 st (CallPack v array startingIndex # calls) = circle_run wgs84 st calls"
| "circle_run wgs84 st (CallUnpack array startingIndex result # calls) =
     circle_run wgs84 (snd (CircleOutlineGeometry_unpack wgs84 st array startingIndex result)) calls"

datatype sphere_call =
  SphereConstruct "sphereOptions option"
| SpherePack "sphereOutlineGeometry option" "jsval list" "nat option"
| SphereUnpack "jsval list" "nat option" "sphereOutlineGeometry option"

fun sphere_run :: "sphere_state \<Rightarrow> sphere_call list \<Rightarrow> sphere_state" where
  "sphere_run st [] = st"
| "sphere_run st (SphereConstruct options # calls) =
     sphere_run (snd (SphereOutlineGeometry st options)) calls"
| "sphere_run st (SpherePack v array startingIndex # calls) = sphere_run st calls"
| "sphere_run st (SphereUnpack array startingIndex result # calls) =
     sphere_run (snd (SphereOutlineGeometry_unpack st array startingIndex result)) calls"

section \<open>Sample inputs\<close>

text \<open>
  Concrete inputs for the examples: the radii of the WGS84 ellipsoid, and a store whose
  one allocated object, at address 0, is the point (0, 0, 0).
\<close>

definition sample_WGS84 :: ellipsoid where
  "sample_WGS84 =
     \<lparr>ellipsoid_radii =
        \<lparr>c3_x = Num 6378137, c3_y = Num 6378137, c3_z = Num 6356752.3142451793\<rparr>\<rparr>"

definition sample_store :: store where
  "sample_store =
     \<lparr>cartesians = (\<lambda>a. \<lparr>c3_x = Num 0, c3_y = Num 0, c3_z = Num 0\<rparr>),
      ellipsoids = (\<lambda>a. Ellipsoid_UNIT_SPHERE), fresh = 1\<rparr>"

text \<open>
  The state of the circle module right after it is loaded into \<open>sample_store\<close>; the
  options of a circle of radius 100000 around the point at address 0; and the description
  and the store its construction in \<open>sample_store\<close> yields.
\<close>

definition sample_circle_state :: circle_state where
  "sample_circle_state =
     \<lparr>cartesians = (\<lambda>a. \<lparr>c3_x = Num 0, c3_y = Num 0, c3_z = Num 0\<rparr>),
      ellipsoids = (\<lambda>a. Ellipsoid_UNIT_SPHERE)(3 := sample_WGS84),
      fresh = 6,
      scratchEllipseGeometry =
        \<lparr>u_center = 2, u_ellipsoid = 3, u_semiMajorAxis = Num 1, u_semiMinorAxis = Num 1,
         u_height = Num 0, u_extrudedHeight = Num 0, u_granularity = Num 0.02,
         u_numberOfVerticalLines = Num 16\<rparr>,
      scratchOptions = EMPTY_OBJECT\<lparr>opt_center := Some 4, opt_ellipsoid := Some 5\<rparr>\<rparr>"

definition sample_options :: outlineOptions where
  "sample_options = EMPTY_OBJECT\<lparr>opt_center := Some 0, opt_radius := Num 100000\<rparr>"

definition sample_circle :: circleOutlineGeometry where
  "sample_circle =
     \<lparr>u_ellipseGeometry =
        \<lparr>u_center = 1, u_ellipsoid = 2, u_semiMajorAxis = Num 100000,
         u_semiMinorAxis = Num 100000, u_height = Num 0, u_extrudedHeight = Num 0,
         u_granularity = Num 0.02, u_numberOfVerticalLines = Num 16\<rparr>,
      u_workerName = ''createCircleOutlineGeometry''\<rparr>"

definition sample_circle_store :: store where
  "sample_circle_store =
     \<lparr>cartesians = (\<lambda>a. \<lparr>c3_x = Num 0, c3_y = Num 0, c3_z = Num 0\<rparr>),
      ellipsoids = (\<lambda>a. Ellipsoid_UNIT_SPHERE)(2 := sample_WGS84), fresh = 3\<rparr>"

text \<open>
  A worker for the dispatcher.  Its creation function is the entrypoint of the circle
  outline, run in the freshly loaded module with a stand-in tessellation that returns the
  center; \<open>require\<close> resolves every path to it.  The batch has three tasks: the packed
  sample circle, a packed description that is too short to hold a radius, and a geometry
  that is already created.
\<close>

definition sample_tessellate :: "cartesian3 \<times> ellipsoid \<times> 'd \<Rightarrow> jsval list" where
  "sample_tessellate c = [c3_x (fst c), c3_y (fst c), c3_z (fst c)]"

definition sample_createFunction :: "jsval list createFunction" where
  "sample_createFunction geometry offset =
     (case fst (createCircleOutlineGeometry sample_WGS84 sample_tessellate sample_circle_state
                  (PackedArray geometry) offset) of
        Inl e \<Rightarrow> Inl e
      | Inr (g, d) \<Rightarrow> Inr (Result g))"

definition sample_environment :: "jsval list environment" where
  "sample_environment =
     \<lparr>exports_is_object = True,
      require = (\<lambda>path. Inr sample_createFunction),
      functionToString = (\<lambda>f. ''function createCircleOutlineGeometry(circleGeometry, offset)''),
      undefinedValue = []\<rparr>"

definition sample_AMD_environment :: "jsval list environment" where
  "sample_AMD_environment = sample_environment\<lparr>exports_is_object := False\<rparr>"

definition sample_dispatcher :: "jsval list dispatcher_state" where
  "sample_dispatcher = \<lparr>moduleCache = Map.empty, required = []\<rparr>"

definition sample_packed :: "jsval list" where
  "sample_packed =
     [Num 0, Num 0, Num 0, Num 6378137, Num 6378137, Num 6356752.3142451793,
      Num 100000, Num 100000, Num 0, Num 0.02, Num 0, Num 16]"

definition sample_batch :: "jsval list parameters" where
  "sample_batch =
     \<lparr>subTasks =
        [\<lparr>task_geometry = sample_packed,
          task_moduleName = Some ''createCircleOutlineGeometry'', task_offset = Some 0\<rparr>,
         \<lparr>task_geometry = [Num 0, Num 0, Num 0],
          task_moduleName = Some ''createCircleOutlineGeometry'', task_offset = Some 0\<rparr>,
         \<lparr>task_geometry = [Num 7], task_moduleName = None, task_offset = None\<rparr>]\<rparr>"

definition sample_good_batch :: "jsval list parameters" where
  "sample_good_batch =
     \<lparr>subTasks =
        [\<lparr>task_geometry = sample_packed,
          task_moduleName = Some ''createCircleOutlineGeometry'', task_offset = Some 0\<rparr>,
         \<lparr>task_geometry = [Num 7], task_moduleName = None, task_offset = None\<rparr>]\<rparr>"

definition sample_manifest :: "jsval list list \<Rightarrow> unit \<Rightarrow> jsval list list" where
  "sample_manifest results transferableObjects = results"

section \<open>Properties\<close>

lemma array_get_set: "array_get (array_set a i v) j = (if j = i then v else array_get a j)"
  by (auto simp: array_get_def array_set_def nth_append)

lemma defaultValue_defined: "defined (defaultValue a (Num b))"
  by (simp add: defaultValue_def defined_def)

lemma defaultValue_id: "defined a \<Longrightarrow> defaultValue a b = a"
  by (simp add: defaultValue_def)

subsection \<open>Construction of a circle outline\<close>

text \<open>
  C6.  Constructing a \<open>CircleOutlineGeometry\<close> whose radius is absent or not a number
  raises the InvalidArgument condition at once: the constructor returns the condition and
  the store is as it was, nothing has been allocated, packed or computed.  The same holds
  when no options object is given at all.
\<close>

theorem CircleOutlineGeometry_requires_radius:
  assumes "\<forall>r. opt_radius options \<noteq> Num r"
  shows "CircleOutlineGeometry wgs84 st (Some options) = (Inl (DeveloperError ''radius''), st)
       \<and> CircleOutlineGeometry wgs84 st None = (Inl (DeveloperError ''radius''), st)"
proof -
  have "Check_typeOf_number ''radius'' (opt_radius options) = Some (DeveloperError ''radius'')"
    using assms by (cases "opt_radius options") (simp_all add: Check_typeOf_number_def)
  then have "CircleOutlineGeometry wgs84 st (Some options) = (Inl (DeveloperError ''radius''), st)"
    by (simp add: CircleOutlineGeometry_def)
  moreover have "CircleOutlineGeometry wgs84 st None = (Inl (DeveloperError ''radius''), st)"
    by (simp add: CircleOutlineGeometry_def Check_typeOf_number_def EMPTY_OBJECT_def)
  ultimately show ?thesis by simp
qed

theorem CircleOutlineGeometry_requires_radius_witness:
  "CircleOutlineGeometry sample_WGS84 sample_store
     (Some (EMPTY_OBJECT\<lparr>opt_center := Some 0, opt_radius := Str ''100000''\<rparr>))
   = (Inl (DeveloperError ''radius''), sample_store)
   \<and> CircleOutlineGeometry sample_WGS84 sample_store
     (Some (EMPTY_OBJECT\<lparr>opt_center := Some 0\<rparr>))
   = (Inl (DeveloperError ''radius''), sample_store)"
  using CircleOutlineGeometry_requires_radius
          [of "EMPTY_OBJECT\<lparr>opt_center := Some 0, opt_radius := Str ''100000''\<rparr>"
              sample_WGS84 sample_store]
        CircleOutlineGeometry_requires_radius
          [of "EMPTY_OBJECT\<lparr>opt_center := Some 0\<rparr>" sample_WGS84 sample_store]
  by (simp add: EMPTY_OBJECT_def)

lemmas store_ops = Cartesian3_clone_def Cartesian3_new_def Ellipsoid_new_def Ellipsoid_clone_def

lemma circle_module_load_sample:
  "circle_module_load sample_WGS84 sample_store = Inr sample_circle_state"
  by (simp add: circle_module_load_def sample_store_def sample_circle_state_def
      EllipseOutlineGeometry_def Check_typeOf_number_def EMPTY_OBJECT_def store_ops Let_def
      defaultValue_def defined_def fun_eq_iff)

lemma sample_circle_constructed:
  "CircleOutlineGeometry sample_WGS84 sample_store (Some sample_options) =
     (Inr sample_circle, sample_circle_store)"
  by (simp add: CircleOutlineGeometry_def EllipseOutlineGeometry_def Check_typeOf_number_def
      sample_options_def sample_circle_def sample_circle_store_def sample_store_def
      EMPTY_OBJECT_def store_ops Let_def defaultValue_def defined_def fun_eq_iff)

lemma EllipseOutlineGeometry_content:
  assumes "opt_center options = Some c" "opt_semiMajorAxis options = Num a" "opt_semiMinorAxis options = Num b"
  shows "\<exists>d st'. EllipseOutlineGeometry wgs84 st options = (Inr d, st') \<and>
     content st' d = (cartesians st c, (case opt_ellipsoid options of None \<Rightarrow> wgs84 | Some e \<Rightarrow> ellipsoids st e),
        \<lparr>u_semiMajorAxis = Num a, u_semiMinorAxis = Num b,
          u_height = defaultValue (opt_height options) (Num 0),
          u_extrudedHeight = defaultValue (opt_extrudedHeight options) (Num 0),
          u_granularity = defaultValue (opt_granularity options) (Num 0.02),
          u_numberOfVerticalLines = defaultValue (opt_numberOfVerticalLines options) (Num 16)\<rparr>)"
  using assms
  by (simp add: EllipseOutlineGeometry_def Check_typeOf_number_def content_def
      store_ops Let_def split: option.splits)

text \<open>
  C5.  Constructing a \<open>CircleOutlineGeometry\<close> with a numeric radius \<open>r\<close> and a center
  succeeds, and its base description is exactly what the constructor of the ellipse outline
  derives from the same options with both semi-axes set to \<open>r\<close>: the same center, the same
  ellipsoid (WGS84 when none is given), and height, extrudedHeight, granularity and
  numberOfVerticalLines as given or defaulted.  The result is a function of the options and
  the store, so the derivation is deterministic.  The example has radius 100000 and
  finds both semi-axes 100000, also after a pack/unpack cycle.
\<close>

theorem CircleOutlineGeometry_derives_ellipse:
  assumes "opt_radius options = Num r" and "opt_center options = Some c"
  shows "\<exists>d st'. CircleOutlineGeometry wgs84 st (Some options) = (Inr d, st') \<and>
           EllipseOutlineGeometry wgs84 st
             (options\<lparr>opt_radius := Undefined, opt_semiMajorAxis := Num r,
                      opt_semiMinorAxis := Num r\<rparr>) = (Inr (u_ellipseGeometry d), st') \<and>
           u_workerName d = ''createCircleOutlineGeometry'' \<and>
           content st' (u_ellipseGeometry d) =
             (cartesians st c,
              (case opt_ellipsoid options of None \<Rightarrow> wgs84 | Some e \<Rightarrow> ellipsoids st e),
              \<lparr>u_semiMajorAxis = Num r, u_semiMinorAxis = Num r,
               u_height = defaultValue (opt_height options) (Num 0),
               u_extrudedHeight = defaultValue (opt_extrudedHeight options) (Num 0),
               u_granularity = defaultValue (opt_granularity options) (Num 0.02),
               u_numberOfVerticalLines =
                 defaultValue (opt_numberOfVerticalLines options) (Num 16)\<rparr>)"
proof -
  let ?o = "options\<lparr>opt_radius := Undefined, opt_semiMajorAxis := Num r, opt_semiMinorAxis := Num r\<rparr>"
  have eq: "\<lparr>opt_center = opt_center options, opt_radius = Undefined,
             opt_ellipsoid = opt_ellipsoid options, opt_height = opt_height options,
             opt_extrudedHeight = opt_extrudedHeight options,
             opt_granularity = opt_granularity options,
             opt_numberOfVerticalLines = opt_numberOfVerticalLines options,
             opt_semiMajorAxis = Num r, opt_semiMinorAxis = Num r\<rparr> = ?o"
    by simp
  from EllipseOutlineGeometry_content [of ?o c r r wgs84 st] assms
  obtain e st' where e: "EllipseOutlineGeometry wgs84 st ?o = (Inr e, st')"
    and c: "content st' e = (cartesians st c,
              (case opt_ellipsoid options of None \<Rightarrow> wgs84 | Some e \<Rightarrow> ellipsoids st e),
              \<lparr>u_semiMajorAxis = Num r, u_semiMinorAxis = Num r,
               u_height = defaultValue (opt_height options) (Num 0),
               u_extrudedHeight = defaultValue (opt_extrudedHeight options) (Num 0),
               u_granularity = defaultValue (opt_granularity options) (Num 0.02),
               u_numberOfVerticalLines =
                 defaultValue (opt_numberOfVerticalLines options) (Num 16)\<rparr>)"
    by auto
  have "CircleOutlineGeometry wgs84 st (Some options) =
          (Inr \<lparr>u_ellipseGeometry = e, u_workerName = ''createCircleOutlineGeometry''\<rparr>, st')"
    using assms e [folded eq] by (simp add: CircleOutlineGeometry_def Check_typeOf_number_def Let_def)
  with e c show ?thesis by simp
qed

theorem CircleOutlineGeometry_derives_ellipse_witness:
  "(\<exists>d st'. CircleOutlineGeometry sample_WGS84 sample_store (Some sample_options) = (Inr d, st')
       \<and> u_semiMajorAxis (u_ellipseGeometry d) = Num 100000
       \<and> u_semiMinorAxis (u_ellipseGeometry d) = Num 100000
       \<and> (\<exists>d' st''.
             CircleOutlineGeometry_unpack sample_WGS84 sample_circle_state
               (EllipseOutlineGeometry_pack st' (u_ellipseGeometry d) [] None) (Some 0) None
               = (Inr d', st'')
             \<and> u_semiMajorAxis (u_ellipseGeometry d') = Num 100000
             \<and> u_semiMinorAxis (u_ellipseGeometry d') = Num 100000))"
proof -
  have r: "opt_radius sample_options = Num 100000" and c: "opt_center sample_options = Some 0"
    by (simp_all add: sample_options_def)
  from CircleOutlineGeometry_derives_ellipse [OF r c, of sample_WGS84 sample_store]
  obtain d st' where
    d: "CircleOutlineGeometry sample_WGS84 sample_store (Some sample_options) = (Inr d, st')"
    and k: "content st' (u_ellipseGeometry d) =
             (cartesians sample_store 0,
              (case opt_ellipsoid sample_options of None \<Rightarrow> sample_WGS84
               | Some e \<Rightarrow> ellipsoids sample_store e),
              \<lparr>u_semiMajorAxis = Num 100000, u_semiMinorAxis = Num 100000,
               u_height = defaultValue (opt_height sample_options) (Num 0),
               u_extrudedHeight = defaultValue (opt_extrudedHeight sample_options) (Num 0),
               u_granularity = defaultValue (opt_granularity sample_options) (Num 0.02),
               u_numberOfVerticalLines =
                 defaultValue (opt_numberOfVerticalLines sample_options) (Num 16)\<rparr>)"
    by blast
  from d have e: "d = sample_circle" "st' = sample_circle_store"
    by (simp_all add: sample_circle_constructed)
  have "\<exists>d' st''.
          CircleOutlineGeometry_unpack sample_WGS84 sample_circle_state
            (EllipseOutlineGeometry_pack sample_circle_store (u_ellipseGeometry sample_circle) [] None)
            (Some 0) None = (Inr d', st'')
          \<and> u_semiMajorAxis (u_ellipseGeometry d') = Num 100000
          \<and> u_semiMinorAxis (u_ellipseGeometry d') = Num 100000"
    by (simp add: CircleOutlineGeometry_unpack_def EllipseOutlineGeometry_unpack_def
        CircleOutlineGeometry_def EllipseOutlineGeometry_def Check_typeOf_number_def
        EllipseOutlineGeometry_pack_def Cartesian3_pack_def Ellipsoid_pack_def
        array_get_set startIndex_def sample_circle_def sample_circle_state_def
        EMPTY_OBJECT_def store_ops Let_def)
  with d e k show ?thesis
    by (simp add: sample_circle_def)
qed


subsection \<open>The packing protocol\<close>

lemma circle_unpack_outcome:
  "circle_outcome (CircleOutlineGeometry_unpack wgs84 st array i result) =
     (let k = startIndex i;
          radius = array_get array (k + 6)
      in case result of
           None \<Rightarrow>
            (case Check_typeOf_number ''radius'' radius of Some e \<Rightarrow> Inl e
             | None \<Rightarrow> Inr ((Cartesian3_unpack array k, Ellipsoid_unpack array (k + 3),
                   \<lparr>u_semiMajorAxis = radius, u_semiMinorAxis = radius,
                    u_height = defaultValue (array_get array (k + 8)) (Num 0),
                    u_extrudedHeight = defaultValue (array_get array (k + 10)) (Num 0),
                    u_granularity = defaultValue (array_get array (k + 9)) (Num 0.02),
                    u_numberOfVerticalLines = defaultValue (array_get array (k + 11)) (Num 16)\<rparr>),
                   ''createCircleOutlineGeometry''))
         | Some res \<Rightarrow>
            (case Check_typeOf_number ''semiMajorAxis'' radius of Some e \<Rightarrow> Inl e
             | None \<Rightarrow>
               (case Check_typeOf_number ''semiMinorAxis'' (array_get array (k + 7)) of Some e \<Rightarrow> Inl e
                | None \<Rightarrow> Inr ((Cartesian3_unpack array k, Ellipsoid_unpack array (k + 3),
                   \<lparr>u_semiMajorAxis = radius, u_semiMinorAxis = array_get array (k + 7),
                    u_height = defaultValue (array_get array (k + 8)) (Num 0),
                    u_extrudedHeight = defaultValue (array_get array (k + 10)) (Num 0),
                    u_granularity = defaultValue (array_get array (k + 9)) (Num 0.02),
                    u_numberOfVerticalLines = defaultValue (array_get array (k + 11)) (Num 16)\<rparr>),
                   u_workerName res))))"
  by (simp add: circle_outcome_def CircleOutlineGeometry_unpack_def
      EllipseOutlineGeometry_unpack_def CircleOutlineGeometry_def EllipseOutlineGeometry_def
      Check_typeOf_number_def content_def store_ops Let_def split: option.splits jsval.splits)

lemma sphere_unpack_outcome:
  "sphere_outcome (SphereOutlineGeometry_unpack st array i result) =
     (let k = startIndex i;
          r = defaultValue (array_get array k) (Num 1);
          parts = (defaultValue (array_get array (k + 3)) (Num 10),
                   defaultValue (array_get array (k + 4)) (Num 8),
                   defaultValue (array_get array (k + 5)) (Num 200))
      in case result of
           None \<Rightarrow> Inr ((\<lparr>c3_x = r, c3_y = r, c3_z = r\<rparr>, parts), ''createSphereOutlineGeometry'')
         | Some res \<Rightarrow>
             Inr (((case sopt_radii (sphereScratchOptions st) of
                      None \<Rightarrow> ellipsoid_radii Ellipsoid_UNIT_SPHERE
                    | Some a \<Rightarrow> Cartesian3_unpack array k), parts),
                  u_sphereWorkerName res))"
  by (simp add: sphere_outcome_def SphereOutlineGeometry_unpack_def
      EllipsoidOutlineGeometry_unpack_def SphereOutlineGeometry_def EllipsoidOutlineGeometry_def
      ellipsoid_content_def Cartesian3_unpack_def store_ops Let_def split: option.splits)

lemma CircleOutlineGeometry_fields:
  assumes "CircleOutlineGeometry wgs84 st0 options = (Inr d, st)"
  shows "\<exists>r. u_semiMajorAxis (u_ellipseGeometry d) = Num r \<and>
             u_semiMinorAxis (u_ellipseGeometry d) = Num r \<and>
             defined (u_height (u_ellipseGeometry d)) \<and>
             defined (u_extrudedHeight (u_ellipseGeometry d)) \<and>
             defined (u_granularity (u_ellipseGeometry d)) \<and>
             defined (u_numberOfVerticalLines (u_ellipseGeometry d)) \<and>
             u_workerName d = ''createCircleOutlineGeometry''"
  using assms
  by (auto simp: CircleOutlineGeometry_def EllipseOutlineGeometry_def Check_typeOf_number_def
      Let_def defaultValue_defined
      split: option.splits jsval.splits prod.splits sum.splits)

lemma unpack_of_pack:
  assumes "u_semiMajorAxis e = Num r" "u_semiMinorAxis e = Num r"
    "defined (u_height e)" "defined (u_extrudedHeight e)"
    "defined (u_granularity e)" "defined (u_numberOfVerticalLines e)"
    "startIndex i = startIndex j"
  shows "circle_outcome (CircleOutlineGeometry_unpack wgs84 st'
            (EllipseOutlineGeometry_pack st e array i) j None) =
         Inr (content st e, ''createCircleOutlineGeometry'')"
  using assms
  by (cases e)
   (simp add: circle_unpack_outcome EllipseOutlineGeometry_pack_def
      Check_typeOf_number_def content_def Cartesian3_pack_def Cartesian3_unpack_def
      Ellipsoid_pack_def Ellipsoid_unpack_def array_get_set Let_def defaultValue_id)

text \<open>
  C1.  Round trip.  A description \<open>d\<close> that the constructor returned is packed into any
  array at any index, in any store; unpacking the array at that index, in any state of the
  module, returns a description equivalent to \<open>d\<close>: the components of its center and the
  radii of its ellipsoid, both semi-axes, height, extrudedHeight, granularity and
  numberOfVerticalLines are exactly those of \<open>d\<close>.  The claim's instance packs into the
  empty array with no index and unpacks at index 0.
\<close>

theorem CircleOutlineGeometry_pack_unpack:
  assumes "CircleOutlineGeometry wgs84 st0 options = (Inr d, st1)"
      and "startIndex i = startIndex j"
  shows "\<exists>packed. CircleOutlineGeometry_pack st (Some d) array i = Inr packed \<and>
           circle_outcome (CircleOutlineGeometry_unpack wgs84 st' packed j None) =
             Inr (content st (u_ellipseGeometry d), u_workerName d)"
proof -
  from CircleOutlineGeometry_fields [OF assms(1)] obtain r where
    f: "u_semiMajorAxis (u_ellipseGeometry d) = Num r"
       "u_semiMinorAxis (u_ellipseGeometry d) = Num r"
       "defined (u_height (u_ellipseGeometry d))"
       "defined (u_extrudedHeight (u_ellipseGeometry d))"
       "defined (u_granularity (u_ellipseGeometry d))"
       "defined (u_numberOfVerticalLines (u_ellipseGeometry d))"
    and w: "u_workerName d = ''createCircleOutlineGeometry''"
    by blast
  have "CircleOutlineGeometry_pack st (Some d) array i =
          Inr (EllipseOutlineGeometry_pack st (u_ellipseGeometry d) array i)"
    by (simp add: CircleOutlineGeometry_pack_def Check_typeOf_object_def)
  moreover note unpack_of_pack [OF f assms(2), of wgs84 st' st array]
  ultimately show ?thesis using w by simp
qed

theorem CircleOutlineGeometry_pack_unpack_witness:
  "CircleOutlineGeometry sample_WGS84 sample_store (Some sample_options) =
     (Inr sample_circle, sample_circle_store)
   \<and> CircleOutlineGeometry_pack sample_circle_store (Some sample_circle) [] None =
       Inr [Num 0, Num 0, Num 0, Num 6378137, Num 6378137, Num 6356752.3142451793,
            Num 100000, Num 100000, Num 0, Num 0.02, Num 0, Num 16]
   \<and> circle_outcome
         (CircleOutlineGeometry_unpack sample_WGS84 sample_circle_state
            [Num 0, Num 0, Num 0, Num 6378137, Num 6378137, Num 6356752.3142451793,
             Num 100000, Num 100000, Num 0, Num 0.02, Num 0, Num 16] (Some 0) None) =
       Inr (content sample_circle_store (u_ellipseGeometry sample_circle),
            u_workerName sample_circle)"
proof -
  have p: "CircleOutlineGeometry_pack sample_circle_store (Some sample_circle) [] None =
       Inr [Num 0, Num 0, Num 0, Num 6378137, Num 6378137, Num 6356752.3142451793,
            Num 100000, Num 100000, Num 0, Num 0.02, Num 0, Num 16]"
    by (simp add: CircleOutlineGeometry_pack_def Check_typeOf_object_def
        EllipseOutlineGeometry_pack_def Cartesian3_pack_def Ellipsoid_pack_def array_set_def
        startIndex_def sample_circle_def sample_circle_store_def sample_WGS84_def Let_def)
  have s: "startIndex None = startIndex (Some 0)"
    by (simp add: startIndex_def)
  from CircleOutlineGeometry_pack_unpack
         [OF sample_circle_constructed s, of sample_circle_store "[]" sample_circle_state]
  show ?thesis
    using sample_circle_constructed p by simp
qed

lemma sphere_radii_SphereOutlineGeometry:
  "sopt_radii (sphereScratchOptions (snd (SphereOutlineGeometry st options))) =
     sopt_radii (sphereScratchOptions st)"
  by (simp add: SphereOutlineGeometry_def EllipsoidOutlineGeometry_def store_ops Let_def
      split: option.splits prod.splits)

lemma sphere_radii_unpack:
  "sopt_radii (sphereScratchOptions (snd (SphereOutlineGeometry_unpack st array i result))) =
     sopt_radii (sphereScratchOptions st)"
  by (simp add: SphereOutlineGeometry_unpack_def EllipsoidOutlineGeometry_unpack_def
      SphereOutlineGeometry_def EllipsoidOutlineGeometry_def store_ops Let_def
      split: option.splits prod.splits)

lemma sphere_radii_run:
  "sopt_radii (sphereScratchOptions (sphere_run st calls)) = sopt_radii (sphereScratchOptions st)"
  by (induction st calls rule: sphere_run.induct)
     (simp_all add: sphere_radii_SphereOutlineGeometry sphere_radii_unpack)

lemma sphere_radii_load: "sopt_radii (sphereScratchOptions (sphere_module_load st)) = Some (Suc (fresh st))"
  by (simp add: sphere_module_load_def EllipsoidOutlineGeometry_def store_ops Let_def
      EMPTY_SPHERE_OPTIONS_def split: prod.splits)

text \<open>
  C8.  What \<open>unpack\<close> returns depends on the array, the starting index and the result
  argument only.  After any two histories of calls to the packing protocol, the same
  \<open>unpack\<close> call returns equivalent descriptions (or raises the same condition): every
  field of a scratch instance that the call reads, it has written before in the same call.
  For the circle module this holds from any state; for the sphere module from the state
  in which the module is loaded.
\<close>

theorem unpack_independent_of_earlier_calls:
  "circle_outcome (CircleOutlineGeometry_unpack wgs84 (circle_run wgs84 st calls1) array i result)
     = circle_outcome (CircleOutlineGeometry_unpack wgs84 (circle_run wgs84 st calls2) array i result)
   \<and> sphere_outcome (SphereOutlineGeometry_unpack (sphere_run (sphere_module_load st0) scalls1)
                        array' i' result')
     = sphere_outcome (SphereOutlineGeometry_unpack (sphere_run (sphere_module_load st0) scalls2)
                        array' i' result')"
  by (simp add: circle_unpack_outcome sphere_unpack_outcome sphere_radii_run sphere_radii_load
      Let_def split: option.splits)

subsection \<open>Construction of a sphere outline\<close>

text \<open>
  C10.  The constructor of \<open>SphereOutlineGeometry\<close> treats the radius as optional: with
  the radius omitted it behaves exactly as with radius 1.0, raises nothing, and the sphere
  it returns has the radii (1, 1, 1).  It reads \<open>options.radius\<close> without defaulting the
  options object, so with no options at all it fails, with the language's TypeError,
  and nothing is allocated.
\<close>

theorem SphereOutlineGeometry_radius_optional:
  "SphereOutlineGeometry st (Some (options\<lparr>sopt_radius := Undefined\<rparr>)) =
     SphereOutlineGeometry st (Some (options\<lparr>sopt_radius := Num 1\<rparr>))
   \<and> (\<exists>d st'. SphereOutlineGeometry st (Some (options\<lparr>sopt_radius := Undefined\<rparr>)) = (Inr d, st')
         \<and> cartesians st' (u_radii (u_ellipsoidGeometry d)) =
             \<lparr>c3_x = Num 1, c3_y = Num 1, c3_z = Num 1\<rparr>)
   \<and> SphereOutlineGeometry st None = (Inl (TypeError ''radius''), st)"
  by (simp add: SphereOutlineGeometry_def EllipsoidOutlineGeometry_def store_ops Let_def
      defaultValue_def defined_def)

subsection \<open>The creation entrypoints\<close>

text \<open>
  C7.  Each creation entrypoint (cylinder, sphere outline, ellipse, circle outline): with
  an offset, the first argument is taken as a packed array and unpacked at that offset, and
  the geometry returned is the shape's \<open>createGeometry\<close> of the unpacked description (a
  condition raised by \<open>unpack\<close> is passed on); without an offset, the first argument is
  taken as a description and the geometry returned is the shape's \<open>createGeometry\<close> of it.
\<close>

theorem creation_entrypoint_unpacks_when_offset:
  "createCylinderGeometry unpackC createC (PackedArray a) (Some off) =
     (case unpackC a off of Inl e \<Rightarrow> Inl e | Inr c \<Rightarrow> Inr (createC (Description c)))
   \<and> createCylinderGeometry unpackC createC (Description c) None = Inr (createC (Description c))
   \<and> createSphereOutlineGeometry createS sst (PackedArray a) (Some off) =
     (case SphereOutlineGeometry_unpack sst a (Some off) None of
        (Inl e, st1) \<Rightarrow> (Inl e, st1)
      | (Inr s, st1) \<Rightarrow> (Inr (SphereOutlineGeometry_createGeometry createS st1 (Some s)), st1))
   \<and> createSphereOutlineGeometry createS sst (Description s) None =
     (Inr (SphereOutlineGeometry_createGeometry createS sst (Some s)), sst)
   \<and> map_sum id fst (fst (createEllipseGeometry unpackE createE st (PackedArray a) (Some off))) =
     (case unpackE st a off of
        (Inl e, st1) \<Rightarrow> Inl e
      | (Inr d, st1) \<Rightarrow> Inr (createE (Some (content st1 d))))
   \<and> map_sum id fst (fst (createEllipseGeometry unpackE createE st (Description d) None)) =
     Inr (createE (Some (content st d)))
   \<and> map_sum id fst (fst (createCircleOutlineGeometry wgs84 create cst (PackedArray a) (Some off))) =
     (case CircleOutlineGeometry_unpack wgs84 cst a (Some off) None of
        (Inl e, st1) \<Rightarrow> Inl e
      | (Inr c, st1) \<Rightarrow> Inr (CircleOutlineGeometry_createGeometry create st1 c))
   \<and> map_sum id fst (fst (createCircleOutlineGeometry wgs84 create cst (Description circle) None)) =
     Inr (CircleOutlineGeometry_createGeometry create cst circle)"
proof -
  have cyl: "createCylinderGeometry unpackC createC (PackedArray a) (Some off) =
     (case unpackC a off of Inl e \<Rightarrow> Inl e | Inr c \<Rightarrow> Inr (createC (Description c)))"
     "createCylinderGeometry unpackC createC (Description c) None = Inr (createC (Description c))"
    by (simp_all add: createCylinderGeometry_def split: sum.splits)
  have sph: "createSphereOutlineGeometry createS sst (PackedArray a) (Some off) =
     (case SphereOutlineGeometry_unpack sst a (Some off) None of
        (Inl e, st1) \<Rightarrow> (Inl e, st1)
      | (Inr s, st1) \<Rightarrow> (Inr (SphereOutlineGeometry_createGeometry createS st1 (Some s)), st1))"
     "createSphereOutlineGeometry createS sst (Description s) None =
     (Inr (SphereOutlineGeometry_createGeometry createS sst (Some s)), sst)"
    by (simp_all add: createSphereOutlineGeometry_def split: sum.splits prod.splits)
  have ell: "map_sum id fst (fst (createEllipseGeometry unpackE createE st (PackedArray a) (Some off))) =
     (case unpackE st a off of
        (Inl e, st1) \<Rightarrow> Inl e
      | (Inr d, st1) \<Rightarrow> Inr (createE (Some (content st1 d))))"
     "map_sum id fst (fst (createEllipseGeometry unpackE createE st (Description d) None)) =
     Inr (createE (Some (content st d)))"
    by (simp_all add: createEllipseGeometry_def content_def store_ops Let_def
        split: sum.splits prod.splits)
  have cir: "map_sum id fst (fst (createCircleOutlineGeometry wgs84 create cst (PackedArray a) (Some off))) =
     (case CircleOutlineGeometry_unpack wgs84 cst a (Some off) None of
        (Inl e, st1) \<Rightarrow> Inl e
      | (Inr c, st1) \<Rightarrow> Inr (CircleOutlineGeometry_createGeometry create st1 c))"
     "map_sum id fst (fst (createCircleOutlineGeometry wgs84 create cst (Description circle) None)) =
     Inr (CircleOutlineGeometry_createGeometry create cst circle)"
    by (simp_all add: createCircleOutlineGeometry_def CircleOutlineGeometry_createGeometry_def
        EllipseOutlineGeometry_createGeometry_def content_def store_ops Let_def
        split: sum.splits prod.splits)
  from cyl sph ell cir show ?thesis by blast
qed

text \<open>
  C9, as the sources have it.  On an already constructed description and no offset, the
  entrypoints of the circle outline and of the ellipse do write to the description: they
  rebind the \<open>_center\<close> and \<open>_ellipsoid\<close> fields of the base description to two newly
  allocated clones.  The numeric content of the description is the same after the call
  as before, the geometry is computed from it, the scratch variables of the module are not
  touched and no object that was in the store is written: the only change to the store are
  the two new objects.  The entrypoint of the sphere outline writes nothing at all.
\<close>

theorem creation_entrypoint_effect:
  "(\<exists>d' st'.
      createCircleOutlineGeometry wgs84 create st (Description d) None =
        (Inr (create (content st (u_ellipseGeometry d)), d'), st')
      \<and> content st' (u_ellipseGeometry d') = content st (u_ellipseGeometry d)
      \<and> u_workerName d' = u_workerName d
      \<and> u_center (u_ellipseGeometry d') = fresh st
      \<and> u_ellipsoid (u_ellipseGeometry d') = Suc (fresh st)
      \<and> scratchEllipseGeometry st' = scratchEllipseGeometry st
      \<and> scratchOptions st' = scratchOptions st
      \<and> cartesians st' =
          (cartesians st)(fresh st := cartesians st (u_center (u_ellipseGeometry d)))
      \<and> ellipsoids st' =
          (ellipsoids st)(Suc (fresh st) := ellipsoids st (u_ellipsoid (u_ellipseGeometry d)))
      \<and> fresh st' = Suc (Suc (fresh st)))
   \<and> (\<exists>e' est'.
      createEllipseGeometry unpack createE est (Description e) None =
        (Inr (createE (Some (content est e)), Description e'), est')
      \<and> content est' e' = content est e
      \<and> u_center e' = fresh est
      \<and> u_ellipsoid e' = Suc (fresh est)
      \<and> cartesians est' = (cartesians est)(fresh est := cartesians est (u_center e))
      \<and> ellipsoids est' = (ellipsoids est)(Suc (fresh est) := ellipsoids est (u_ellipsoid e))
      \<and> fresh est' = Suc (Suc (fresh est)))
   \<and> createSphereOutlineGeometry createS sst (Description s) None =
        (Inr (createS (Some (ellipsoid_content sst (u_ellipsoidGeometry s)))), sst)"
  by (simp add: createCircleOutlineGeometry_def createEllipseGeometry_def
      createSphereOutlineGeometry_def CircleOutlineGeometry_createGeometry_def
      EllipseOutlineGeometry_createGeometry_def SphereOutlineGeometry_createGeometry_def
      EllipsoidOutlineGeometry_createGeometry_def content_def store_ops Let_def)

text \<open>
  C9, as the claim states it, fails: the description is not left unchanged.  After the
  entrypoint of the circle outline has run on \<open>sample_circle\<close>, the description is another
  record: its center and ellipsoid fields hold the addresses of the clones.
\<close>

theorem creation_entrypoint_rebinds_counterexample:
  "snd (projr (fst (createCircleOutlineGeometry sample_WGS84 id sample_circle_state
                      (Description sample_circle) None))) \<noteq> sample_circle"
  by (simp add: createCircleOutlineGeometry_def CircleOutlineGeometry_createGeometry_def
      EllipseOutlineGeometry_createGeometry_def content_def store_ops Let_def
      sample_circle_def sample_circle_state_def)

subsection \<open>The worker dispatcher\<close>

declare createGeometry_loop.simps [simp del]

lemma loop_slots:
  assumes "createGeometry_loop env tasks i rs st = (Inr rs', st')"
      and "st = stateBefore env st0 tasks i"
      and "length rs = length tasks"
  shows "length rs' = length tasks
       \<and> (\<forall>j<i. rs' ! j = rs ! j)
       \<and> (\<forall>j. i \<le> j \<and> j < length tasks \<longrightarrow>
             fst (runTask env (stateBefore env st0 tasks j) (tasks ! j)) = Inr (rs' ! j))"
  using assms
proof (induction env tasks i rs st rule: createGeometry_loop.induct)
  case (1 env tasks i rs st)
  show ?case
  proof (cases "i < length tasks")
    case False
    with "1.prems" show ?thesis
      by (auto simp: createGeometry_loop.simps [of env tasks i])
  next
    case True
    obtain r st1 where rt: "runTask env st (tasks ! i) = (Inr r, st1)"
      using "1.prems"(1) True
      by (cases "runTask env st (tasks ! i)")
         (auto simp: createGeometry_loop.simps [of env tasks i] split: sum.splits)
    have rec: "createGeometry_loop env tasks (i + 1) (rs[i := r]) st1 = (Inr rs', st')"
      using "1.prems"(1) True rt by (simp add: createGeometry_loop.simps [of env tasks i])
    have st1: "st1 = stateBefore env st0 tasks (i + 1)"
      using rt "1.prems"(2) by simp
    have len: "length (rs[i := r]) = length tasks"
      using "1.prems"(3) by simp
    from "1.IH" [OF True rt [symmetric] refl rec st1 len]
    have ih: "length rs' = length tasks"
      "\<forall>j<i + 1. rs' ! j = rs[i := r] ! j"
      "\<forall>j. i + 1 \<le> j \<and> j < length tasks \<longrightarrow>
             fst (runTask env (stateBefore env st0 tasks j) (tasks ! j)) = Inr (rs' ! j)"
      by simp_all
    have at_i: "rs' ! i = r"
      using ih(2) True "1.prems"(3) by simp
    have before: "\<forall>j<i. rs' ! j = rs ! j"
      using ih(2) by (auto simp: nth_list_update)
    have here: "fst (runTask env (stateBefore env st0 tasks i) (tasks ! i)) = Inr (rs' ! i)"
      using rt "1.prems"(2) at_i by simp
    have "\<forall>j. i \<le> j \<and> j < length tasks \<longrightarrow>
             fst (runTask env (stateBefore env st0 tasks j) (tasks ! j)) = Inr (rs' ! j)"
    proof (intro allI impI)
      fix j assume j: "i \<le> j \<and> j < length tasks"
      show "fst (runTask env (stateBefore env st0 tasks j) (tasks ! j)) = Inr (rs' ! j)"
      proof (cases "j = i")
        case True then show ?thesis using here by simp
      next
        case False
        with j have "i + 1 \<le> j \<and> j < length tasks" by simp
        with ih(3) show ?thesis by blast
      qed
    qed
    with ih(1) before show ?thesis by simp
  qed
qed

lemma loop_raises:
  assumes "i \<le> k" and "k < length tasks"
      and "st = stateBefore env st0 tasks i"
      and "\<forall>j. i \<le> j \<and> j < k \<longrightarrow>
             (\<exists>r. fst (runTask env (stateBefore env st0 tasks j) (tasks ! j)) = Inr r)"
      and "fst (runTask env (stateBefore env st0 tasks k) (tasks ! k)) = Inl e"
  shows "fst (createGeometry_loop env tasks i rs st) = Inl e"
  using assms
proof (induction env tasks i rs st rule: createGeometry_loop.induct)
  case (1 env tasks i rs st)
  have lt: "i < length tasks" using "1.prems" by simp
  show ?case
  proof (cases "i = k")
    case True
    with "1.prems" lt show ?thesis
      by (cases "runTask env st (tasks ! k)")
         (simp add: createGeometry_loop.simps [of env tasks k])
  next
    case False
    with "1.prems" have ik: "i + 1 \<le> k" by simp
    from "1.prems"(1,4) False "1.prems"(3)
    obtain r where "fst (runTask env st (tasks ! i)) = Inr r"
      by (metis le_neq_implies_less order_refl)
    then obtain st1 where rt: "runTask env st (tasks ! i) = (Inr r, st1)"
      by (cases "runTask env st (tasks ! i)") simp
    have st1: "st1 = stateBefore env st0 tasks (i + 1)"
      using rt "1.prems"(3) by simp
    have all: "\<forall>j. i + 1 \<le> j \<and> j < k \<longrightarrow>
             (\<exists>r. fst (runTask env (stateBefore env st0 tasks j) (tasks ! j)) = Inr r)"
      using "1.prems"(4) by simp
    from "1.IH" [OF lt rt [symmetric] refl ik "1.prems"(2) st1 all "1.prems"(5)]
    show ?thesis
      using lt rt by (simp add: createGeometry_loop.simps [of env tasks i])
  qed
qed

lemma when_all_slots:
  "when_all slots = Inr results \<Longrightarrow>
     length results = length slots \<and>
     (\<forall>i<length slots. slots ! i = Result (results ! i) \<or> slots ! i = Promise (Inr (results ! i)))"
proof (induction slots arbitrary: results rule: when_all.induct)
  case 1
  then show ?case by simp
next
  case (2 v ps)
  then obtain rs where rs: "when_all ps = Inr rs" "results = v # rs"
    by (auto split: sum.splits)
  with "2.IH" [of rs] show ?case
    by (auto simp: nth_Cons split: nat.splits)
next
  case (3 e ps)
  then show ?case by simp
next
  case (4 v ps)
  then obtain rs where rs: "when_all ps = Inr rs" "results = v # rs"
    by (auto split: sum.splits)
  with "4.IH" [of rs] show ?case
    by (auto simp: nth_Cons split: nat.splits)
qed

lemma when_all_rejects:
  "k < length slots \<Longrightarrow> slots ! k = Promise (Inl e) \<Longrightarrow>
   \<forall>j<length slots. j \<noteq> k \<longrightarrow> (\<exists>v. slots ! j = Result v \<or> slots ! j = Promise (Inr v)) \<Longrightarrow>
   when_all slots = Inl e"
proof (induction slots arbitrary: k rule: when_all.induct)
  case 1
  then show ?case by simp
next
  case (2 v ps)
  then obtain k' where k: "k = Suc k'" by (cases k) auto
  with "2.prems" have "k' < length ps" "ps ! k' = Promise (Inl e)"
    "\<forall>j<length ps. j \<noteq> k' \<longrightarrow> (\<exists>v. ps ! j = Result v \<or> ps ! j = Promise (Inr v))"
    by auto
  with "2.IH" [of k'] show ?case by simp
next
  case (3 e' ps)
  then show ?case by (cases k) auto
next
  case (4 v ps)
  then obtain k' where k: "k = Suc k'" by (cases k) auto
  with "4.prems" have "k' < length ps" "ps ! k' = Promise (Inl e)"
    "\<forall>j<length ps. j \<noteq> k' \<longrightarrow> (\<exists>v. ps ! j = Result v \<or> ps ! j = Promise (Inr v))"
    by auto
  with "4.IH" [of k'] show ?case by simp
qed

lemma loop_completes:
  assumes "st = stateBefore env st0 tasks i"
      and "\<forall>j. i \<le> j \<and> j < length tasks \<longrightarrow>
             (\<exists>r. fst (runTask env (stateBefore env st0 tasks j) (tasks ! j)) = Inr r)"
  shows "\<exists>rs' st'. createGeometry_loop env tasks i rs st = (Inr rs', st')"
  using assms
proof (induction env tasks i rs st rule: createGeometry_loop.induct)
  case (1 env tasks i rs st)
  show ?case
  proof (cases "i < length tasks")
    case False
    then show ?thesis by (simp add: createGeometry_loop.simps [of env tasks i])
  next
    case True
    with "1.prems" obtain r where "fst (runTask env st (tasks ! i)) = Inr r"
      by (metis order_refl)
    then obtain st1 where rt: "runTask env st (tasks ! i) = (Inr r, st1)"
      by (cases "runTask env st (tasks ! i)") simp
    have st1: "st1 = stateBefore env st0 tasks (i + 1)"
      using rt "1.prems"(1) by simp
    have all: "\<forall>j. i + 1 \<le> j \<and> j < length tasks \<longrightarrow>
             (\<exists>r. fst (runTask env (stateBefore env st0 tasks j) (tasks ! j)) = Inr r)"
      using "1.prems"(2) by simp
    from "1.IH" [OF True rt [symmetric] refl st1 all]
    show ?thesis
      using True rt by (simp add: createGeometry_loop.simps [of env tasks i])
  qed
qed

lemma runTask_slot:
  assumes "fst (runTask env st t) = Inr r"
  shows "case task_moduleName t of
           None \<Rightarrow> r = Result (task_geometry t)
         | Some name \<Rightarrow>
             (\<exists>f. fst (getModule env st name) = Inr (Some f) \<and>
                  f (task_geometry t) (task_offset t) = Inr r)"
  using assms
  by (auto simp: runTask_def Let_def split: option.splits prod.splits sum.splits)

lemma sample_createFunction_packed:
  "sample_createFunction sample_packed (Some 0) = Inr (Result [Num 0, Num 0, Num 0])"
  by (simp add: sample_createFunction_def sample_packed_def sample_tessellate_def
      createCircleOutlineGeometry_def CircleOutlineGeometry_createGeometry_def
      EllipseOutlineGeometry_createGeometry_def content_def
      CircleOutlineGeometry_unpack_def EllipseOutlineGeometry_unpack_def
      CircleOutlineGeometry_def EllipseOutlineGeometry_def Check_typeOf_number_def
      Cartesian3_unpack_def Ellipsoid_unpack_def array_get_def startIndex_def
      sample_circle_state_def EMPTY_OBJECT_def store_ops Let_def)

lemma sample_createFunction_short:
  "sample_createFunction [Num 0, Num 0, Num 0] (Some 0) = Inl (DeveloperError ''radius'')"
  by (simp add: sample_createFunction_def sample_tessellate_def
      createCircleOutlineGeometry_def
      CircleOutlineGeometry_unpack_def EllipseOutlineGeometry_unpack_def
      CircleOutlineGeometry_def EllipseOutlineGeometry_def Check_typeOf_number_def
      Cartesian3_unpack_def Ellipsoid_unpack_def array_get_def startIndex_def
      sample_circle_state_def EMPTY_OBJECT_def store_ops Let_def)

lemma sample_task_outcomes:
  "subTaskOutcome sample_environment sample_dispatcher (subTasks sample_batch) 0
     = Inr [Num 0, Num 0, Num 0]"
  "subTaskOutcome sample_environment sample_dispatcher (subTasks sample_batch) 1
     = Inl (DeveloperError ''radius'')"
  "subTaskOutcome sample_environment sample_dispatcher (subTasks sample_batch) 2
     = Inr [Num 7]"
  by (simp_all add: subTaskOutcome_def sample_batch_def runTask_def getModule_def
      sample_environment_def sample_dispatcher_def Let_def numeral_2_eq_2
      sample_createFunction_packed sample_createFunction_short)

lemma sample_good_batch_completes:
  "createGeometry sample_environment sample_manifest sample_dispatcher sample_good_batch () =
     (Inr [[Num 0, Num 0, Num 0], [Num 7]],
      \<lparr>moduleCache = [''undefined'' \<mapsto> sample_createFunction],
       required = [''Workers/createCircleOutlineGeometry'']\<rparr>)"
  by (simp add: createGeometry_def sample_good_batch_def sample_manifest_def
      createGeometry_loop.simps runTask_def getModule_def
      sample_environment_def sample_dispatcher_def Let_def
      sample_createFunction_packed)

text \<open>
  C2.  When a batch of \<open>N\<close> sub-tasks completes, the packer receives \<open>N\<close> results and
  result \<open>i\<close> is the one of task \<open>i\<close>: slot \<open>i\<close> of \<open>resultsOrPromises\<close> holds the task's
  geometry unchanged when its \<open>moduleName\<close> is undefined, and otherwise the value that the
  creation function which \<open>getModule\<close> resolved for it returned on the task's geometry and
  offset; result \<open>i\<close> is what slot \<open>i\<close> holds or completes to.
\<close>

theorem createGeometry_slot_order:
  assumes "createGeometry env pack st parameters transfer = (Inr manifest, st')"
  shows "\<exists>slots results.
           manifest = pack results transfer \<and>
           length slots = length (subTasks parameters) \<and>
           length results = length (subTasks parameters) \<and>
           (\<forall>i<length (subTasks parameters).
              (case task_moduleName (subTasks parameters ! i) of
                 None \<Rightarrow> slots ! i = Result (task_geometry (subTasks parameters ! i))
               | Some name \<Rightarrow>
                   (\<exists>f. fst (getModule env (stateBefore env st (subTasks parameters) i) name)
                          = Inr (Some f) \<and>
                        f (task_geometry (subTasks parameters ! i))
                          (task_offset (subTasks parameters ! i)) = Inr (slots ! i)))
              \<and> (slots ! i = Result (results ! i) \<or> slots ! i = Promise (Inr (results ! i))))"
proof -
  let ?tasks = "subTasks parameters"
  let ?init = "replicate (length ?tasks) (Result (undefinedValue env))"
  from assms obtain slots st1 where
    loop: "createGeometry_loop env ?tasks 0 ?init st = (Inr slots, st1)"
    by (auto simp: createGeometry_def Let_def split: prod.splits sum.splits)
  with assms obtain results where
    all: "when_all slots = Inr results" and m: "manifest = pack results transfer"
    by (auto simp: createGeometry_def Let_def split: prod.splits sum.splits)
  from loop_slots [OF loop, of st] have
    len: "length slots = length ?tasks" and
    run: "\<forall>j. 0 \<le> j \<and> j < length ?tasks \<longrightarrow>
            fst (runTask env (stateBefore env st ?tasks j) (?tasks ! j)) = Inr (slots ! j)"
    by simp_all
  from when_all_slots [OF all] have
    rlen: "length results = length slots" and
    res: "\<forall>i<length slots. slots ! i = Result (results ! i) \<or> slots ! i = Promise (Inr (results ! i))"
    by simp_all
  have "\<forall>i<length ?tasks.
          (case task_moduleName (?tasks ! i) of
             None \<Rightarrow> slots ! i = Result (task_geometry (?tasks ! i))
           | Some name \<Rightarrow>
               (\<exists>f. fst (getModule env (stateBefore env st ?tasks i) name) = Inr (Some f) \<and>
                    f (task_geometry (?tasks ! i)) (task_offset (?tasks ! i)) = Inr (slots ! i)))
          \<and> (slots ! i = Result (results ! i) \<or> slots ! i = Promise (Inr (results ! i)))"
  proof (intro allI impI conjI)
    fix i assume i: "i < length ?tasks"
    with run have "fst (runTask env (stateBefore env st ?tasks i) (?tasks ! i)) = Inr (slots ! i)"
      by simp
    from runTask_slot [OF this]
    show "case task_moduleName (?tasks ! i) of
             None \<Rightarrow> slots ! i = Result (task_geometry (?tasks ! i))
           | Some name \<Rightarrow>
               (\<exists>f. fst (getModule env (stateBefore env st ?tasks i) name) = Inr (Some f) \<and>
                    f (task_geometry (?tasks ! i)) (task_offset (?tasks ! i)) = Inr (slots ! i))" .
    from res i len show "slots ! i = Result (results ! i) \<or> slots ! i = Promise (Inr (results ! i))"
      by simp
  qed
  with m len rlen show ?thesis by auto
qed

theorem createGeometry_slot_order_witness:
  "createGeometry sample_environment sample_manifest sample_dispatcher sample_good_batch () =
     (Inr [[Num 0, Num 0, Num 0], [Num 7]],
      \<lparr>moduleCache = [''undefined'' \<mapsto> sample_createFunction],
       required = [''Workers/createCircleOutlineGeometry'']\<rparr>)
   \<and> (\<exists>slots results.
         [[Num 0, Num 0, Num 0], [Num 7]] = sample_manifest results () \<and>
         length slots = 2 \<and> length results = 2 \<and>
         slots ! 1 = Result [Num 7] \<and>
         (\<exists>f. fst (getModule sample_environment sample_dispatcher ''createCircleOutlineGeometry'')
                = Inr (Some f) \<and>
              f sample_packed (Some 0) = Inr (slots ! 0)) \<and>
         (slots ! 0 = Result (results ! 0) \<or> slots ! 0 = Promise (Inr (results ! 0))) \<and>
         (slots ! 1 = Result (results ! 1) \<or> slots ! 1 = Promise (Inr (results ! 1))))"
proof -
  from createGeometry_slot_order [OF sample_good_batch_completes]
  obtain slots results where
    m: "[[Num 0, Num 0, Num 0], [Num 7]] = sample_manifest results ()" and
    len: "length slots = length (subTasks sample_good_batch)"
         "length results = length (subTasks sample_good_batch)" and
    all: "\<forall>i<length (subTasks sample_good_batch).
              (case task_moduleName (subTasks sample_good_batch ! i) of
                 None \<Rightarrow> slots ! i = Result (task_geometry (subTasks sample_good_batch ! i))
               | Some name \<Rightarrow>
                   (\<exists>f. fst (getModule sample_environment
                               (stateBefore sample_environment sample_dispatcher
                                  (subTasks sample_good_batch) i) name)
                          = Inr (Some f) \<and>
                        f (task_geometry (subTasks sample_good_batch ! i))
                          (task_offset (subTasks sample_good_batch ! i)) = Inr (slots ! i)))
              \<and> (slots ! i = Result (results ! i) \<or> slots ! i = Promise (Inr (results ! i)))"
    by blast
  from all have a0: "(\<exists>f. fst (getModule sample_environment sample_dispatcher
                               ''createCircleOutlineGeometry'') = Inr (Some f) \<and>
                        f sample_packed (Some 0) = Inr (slots ! 0))
              \<and> (slots ! 0 = Result (results ! 0) \<or> slots ! 0 = Promise (Inr (results ! 0)))"
    by (auto simp: sample_good_batch_def dest!: spec [of _ 0])
  from all have a1: "slots ! 1 = Result [Num 7]
              \<and> (slots ! 1 = Result (results ! 1) \<or> slots ! 1 = Promise (Inr (results ! 1)))"
    by (auto simp: sample_good_batch_def dest!: spec [of _ 1])
  from len have "length slots = 2" "length results = 2"
    by (simp_all add: sample_good_batch_def)
  with m a0 a1 sample_good_batch_completes show ?thesis by blast
qed

text \<open>
  C3.  When one sub-task of a batch raises a condition during creation, at once or as the
  failure of the promise it returned, while the others complete, the whole batch fails
  with that condition: \<open>createGeometry\<close> returns the condition and no manifest.
\<close>

theorem createGeometry_fails_as_a_whole:
  assumes k: "k < length (subTasks parameters)"
      and fails: "subTaskOutcome env st (subTasks parameters) k = Inl e"
      and others: "\<forall>j<length (subTasks parameters). j \<noteq> k \<longrightarrow>
                     (\<exists>v. subTaskOutcome env st (subTasks parameters) j = Inr v)"
  shows "fst (createGeometry env pack st parameters transfer) = Inl e"
proof -
  let ?tasks = "subTasks parameters"
  let ?init = "replicate (length ?tasks) (Result (undefinedValue env))"
  let ?run = "\<lambda>j. fst (runTask env (stateBefore env st ?tasks j) (?tasks ! j))"
  have sync: "\<exists>r. ?run j = Inr r" if "j < length ?tasks" "j \<noteq> k" for j
    using others that
    by (cases "?run j") (auto simp: subTaskOutcome_def)
  show ?thesis
  proof (cases "?run k")
    case (Inl e')
    with fails have e: "?run k = Inl e" by (simp add: subTaskOutcome_def)
    have pre: "\<forall>j. 0 \<le> j \<and> j < k \<longrightarrow> (\<exists>r. ?run j = Inr r)"
      using sync k by auto
    have "fst (createGeometry_loop env ?tasks 0 ?init st) = Inl e"
      by (rule loop_raises [OF _ k _ pre e]) simp_all
    then show ?thesis
      by (cases "createGeometry_loop env ?tasks 0 ?init st")
         (simp add: createGeometry_def Let_def)
  next
    case (Inr r)
    with fails have r: "?run k = Inr (Promise (Inl e))"
      by (cases r) (auto simp: subTaskOutcome_def)
    have pre: "\<forall>j. 0 \<le> j \<and> j < length ?tasks \<longrightarrow> (\<exists>r. ?run j = Inr r)"
      using sync r by (metis)
    have "\<exists>rs' st'. createGeometry_loop env ?tasks 0 ?init st = (Inr rs', st')"
      by (rule loop_completes [OF _ pre]) simp
    then obtain slots st1 where
      loop: "createGeometry_loop env ?tasks 0 ?init st = (Inr slots, st1)"
      by auto
    from loop_slots [OF loop, of st] have
      len: "length slots = length ?tasks" and
      run: "\<forall>j. 0 \<le> j \<and> j < length ?tasks \<longrightarrow> ?run j = Inr (slots ! j)"
      by simp_all
    from run k r have sk: "slots ! k = Promise (Inl e)" by simp
    have "\<forall>j<length slots. j \<noteq> k \<longrightarrow> (\<exists>v. slots ! j = Result v \<or> slots ! j = Promise (Inr v))"
    proof (intro allI impI)
      fix j assume j: "j < length slots" "j \<noteq> k"
      with others len obtain v where "subTaskOutcome env st ?tasks j = Inr v" by auto
      moreover from run j len have "?run j = Inr (slots ! j)" by simp
      ultimately show "\<exists>v. slots ! j = Result v \<or> slots ! j = Promise (Inr v)"
        by (cases "slots ! j") (auto simp: subTaskOutcome_def)
    qed
    from when_all_rejects [OF _ sk this] k len have "when_all slots = Inl e" by simp
    with loop show ?thesis by (simp add: createGeometry_def Let_def)
  qed
qed

theorem createGeometry_fails_as_a_whole_witness:
  "subTaskOutcome sample_environment sample_dispatcher (subTasks sample_batch) 0
     = Inr [Num 0, Num 0, Num 0]
   \<and> subTaskOutcome sample_environment sample_dispatcher (subTasks sample_batch) 1
     = Inl (DeveloperError ''radius'')
   \<and> subTaskOutcome sample_environment sample_dispatcher (subTasks sample_batch) 2
     = Inr [Num 7]
   \<and> fst (createGeometry sample_environment sample_manifest sample_dispatcher sample_batch ())
     = Inl (DeveloperError ''radius'')"
proof -
  have k: "1 < length (subTasks sample_batch)"
    by (simp add: sample_batch_def)
  have others: "\<forall>j<length (subTasks sample_batch). j \<noteq> 1 \<longrightarrow>
      (\<exists>v. subTaskOutcome sample_environment sample_dispatcher (subTasks sample_batch) j = Inr v)"
  proof (intro allI impI)
    fix j assume "j < length (subTasks sample_batch)" "j \<noteq> 1"
    then have "j = 0 \<or> j = 2" by (auto simp: sample_batch_def)
    then show "\<exists>v. subTaskOutcome sample_environment sample_dispatcher (subTasks sample_batch) j = Inr v"
      using sample_task_outcomes by auto
  qed
  from createGeometry_fails_as_a_whole [OF k sample_task_outcomes(2) others]
  show ?thesis using sample_task_outcomes by simp
qed

lemma getModule_never_caches_by_name:
  assumes "moduleCache st moduleName = None"
      and "moduleName \<noteq> ''undefined''"
      and "\<forall>f. functionToString env f \<noteq> moduleName"
  shows "moduleCache (snd (getModule env st moduleName)) moduleName = None
       \<and> required (snd (getModule env st moduleName)) = required st @ [''Workers/'' @ moduleName]"
  using assms
  by (auto simp: getModule_def Let_def split: sum.splits)

text \<open>
  C4, on the sources.  \<open>getModule\<close> looks the module up under its name and stores it
  under another key, so the lookup of a name never hits what an earlier call for that name
  stored.  In the sample worker the first call for \<open>createCircleOutlineGeometry\<close> leaves
  \<open>moduleCache\<close> without an entry for that name, and the second call invokes \<open>require\<close>
  again, in the CommonJS branch as in the AMD branch.
\<close>

theorem getModule_loads_again:
  "moduleCache (snd (getModule sample_environment sample_dispatcher
                       ''createCircleOutlineGeometry'')) ''createCircleOutlineGeometry'' = None
   \<and> required (snd (getModule sample_environment sample_dispatcher
                       ''createCircleOutlineGeometry''))
       = [''Workers/createCircleOutlineGeometry'']
   \<and> required (snd (getModule sample_environment
                       (snd (getModule sample_environment sample_dispatcher
                               ''createCircleOutlineGeometry''))
                       ''createCircleOutlineGeometry''))
       = [''Workers/createCircleOutlineGeometry'', ''Workers/createCircleOutlineGeometry'']
   \<and> moduleCache (snd (getModule sample_AMD_environment sample_dispatcher
                       ''createCircleOutlineGeometry'')) ''createCircleOutlineGeometry'' = None
   \<and> required (snd (getModule sample_AMD_environment
                       (snd (getModule sample_AMD_environment sample_dispatcher
                               ''createCircleOutlineGeometry''))
                       ''createCircleOutlineGeometry''))
       = [''Workers/createCircleOutlineGeometry'', ''Workers/createCircleOutlineGeometry'']"
  by (simp add: getModule_def sample_environment_def sample_AMD_environment_def
      sample_dispatcher_def Let_def)

end
